theory Spec2Isabelle
  imports Main
begin

section \<open>Python string primitives used by the handlers\<close>

text \<open>
  Python strings are sequences of code points; a \<^typ>\<open>string\<close> here is a list of
  \<^typ>\<open>char\<close>, read as the code points 0 to 255. Every exception the handlers can
  meet in the modelled expressions is a value of \<open>py_exc\<close>; \<open>RunError m\<close> is an
  exception raised by \<open>subprocess.run\<close> whose text \<open>str(e)\<close> is \<open>m\<close>.
\<close>

datatype py_exc =
    ValueError | TypeError | IndexError | OverflowError | AttributeError
  | UnicodeEncodeError | RunError string

text \<open>
  \<open>int(s)\<close> for a string argument, base 10. The interpreter maps the white-space code
  points 0x85 and 0xA0 to a blank and then skips the blanks 0x09 to 0x0D and 0x20 on
  both sides, reads an optional sign, and then digits in which single underscores may
  separate digits. Anything else raises ValueError. Interpreters from 3.11 on also raise
  ValueError when the literal has more digits than the configured limit
  (\<open>sys.get_int_max_str_digits()\<close>, 4300 by default, 0 for no limit); the limit is the
  parameter \<open>lim\<close>.
\<close>

definition int_space :: "char \<Rightarrow> bool" where
  "int_space c \<longleftrightarrow> (of_char c :: nat) \<in> {9, 10, 11, 12, 13, 32, 133, 160}"

definition is_digit :: "char \<Rightarrow> bool" where
  "is_digit c \<longleftrightarrow> 48 \<le> (of_char c :: nat) \<and> (of_char c :: nat) \<le> 57"

definition digit_val :: "char \<Rightarrow> int" where
  "digit_val c = int (of_char c) - 48"

definition dec_val :: "string \<Rightarrow> int" where
  "dec_val ds = foldl (\<lambda>a c. 10 * a + digit_val c) 0 ds"

fun underscores_ok :: "string \<Rightarrow> bool" where
  "underscores_ok [] = True"
| "underscores_ok [c] = (c \<noteq> CHR ''_'')"
| "underscores_ok (c # d # cs) =
     (\<not> (c = CHR ''_'' \<and> d = CHR ''_'') \<and> underscores_ok (d # cs))"

definition py_int :: "nat \<Rightarrow> string \<Rightarrow> py_exc + int" where
  "py_int lim s =
     (let s1 = dropWhile int_space s;
          neg = (case s1 of [] \<Rightarrow> False | c # _ \<Rightarrow> c = CHR ''-'');
          s2 = (case s1 of [] \<Rightarrow> []
                | c # r \<Rightarrow> if c = CHR ''+'' \<or> c = CHR ''-'' then r else s1);
          body = takeWhile (\<lambda>c. is_digit c \<or> c = CHR ''_'') s2;
          rest = dropWhile (\<lambda>c. is_digit c \<or> c = CHR ''_'') s2;
          ds = filter is_digit body
      in if (case s2 of [] \<Rightarrow> False | c # _ \<Rightarrow> c = CHR ''_'') then Inl ValueError
         else if \<not> underscores_ok body then Inl ValueError
         else if 0 < lim \<and> lim < length ds then Inl ValueError
         else if body = [] then Inl ValueError
         else if dropWhile int_space rest \<noteq> [] then Inl ValueError
         else Inr (if neg then - dec_val ds else dec_val ds))"

subsection \<open>Quantity strings to megabytes\<close>

text \<open>
  The expression of \<open>create_user\<close> (lines 306 and 307) and of \<open>update_user\<close> (lines 423
  and 424):
  \<^verbatim>\<open>int(q.replace('G', '')) * 1024 if 'G' in q else int(q.replace('M', ''))\<close>
\<close>

definition replace_char :: "char \<Rightarrow> string \<Rightarrow> string" where
  "replace_char c s = filter (\<lambda>x. x \<noteq> c) s"

definition to_mb :: "nat \<Rightarrow> string \<Rightarrow> py_exc + int" where
  "to_mb lim q =
     (if CHR ''G'' \<in> set q
      then (case py_int lim (replace_char (CHR ''G'') q) of
              Inl e \<Rightarrow> Inl e | Inr n \<Rightarrow> Inr (n * 1024))
      else py_int lim (replace_char (CHR ''M'') q))"

text \<open>The form \<open><integer><unit>\<close> of the specification: one or more decimal digits and
  then the unit letter.\<close>

definition quantity_form :: "char \<Rightarrow> string \<Rightarrow> bool" where
  "quantity_form u q \<longleftrightarrow>
     q \<noteq> [] \<and> last q = u \<and> butlast q \<noteq> [] \<and> list_all is_digit (butlast q)"

text \<open>
  What the conversion accepts, said as a grammar and not as the steps of \<open>int\<close>. An
  integer literal is: blanks, an optional sign, one or more digits in which a single
  underscore may stand between two digits, blanks. \<open>digit_groups\<close> recognises the digits
  with their underscores, \<open>literal_body\<close> is the text between the sign and the trailing
  blanks, and \<open>literal_value\<close> is the number the literal denotes. \<open>unit_stripped\<close> is
  the quantity without its unit letters, as the conversion removes them, and
  \<open>accepted\<close> says that what is left is a literal within the digit limit.
\<close>

fun digit_groups :: "string \<Rightarrow> bool" where
  "digit_groups [] = False"
| "digit_groups [c] = is_digit c"
| "digit_groups (c # d # cs) =
     (is_digit c \<and> (if d = CHR ''_'' then digit_groups cs else digit_groups (d # cs)))"

definition lstrip_int :: "string \<Rightarrow> string" where
  "lstrip_int s = dropWhile int_space s"

definition rstrip_int :: "string \<Rightarrow> string" where
  "rstrip_int s = rev (dropWhile int_space (rev s))"

definition unsigned :: "string \<Rightarrow> string" where
  "unsigned s = (case s of [] \<Rightarrow> [] | c # r \<Rightarrow> if c = CHR ''+'' \<or> c = CHR ''-'' then r else s)"

definition literal_body :: "string \<Rightarrow> string" where
  "literal_body s = rstrip_int (unsigned (lstrip_int s))"

definition int_literal :: "string \<Rightarrow> bool" where
  "int_literal s \<longleftrightarrow> digit_groups (literal_body s)"

definition literal_value :: "string \<Rightarrow> int" where
  "literal_value s =
     (let v = dec_val (filter is_digit (literal_body s))
      in if (case lstrip_int s of [] \<Rightarrow> False | c # _ \<Rightarrow> c = CHR ''-'') then - v else v)"

definition unit_stripped :: "string \<Rightarrow> string" where
  "unit_stripped q =
     (if CHR ''G'' \<in> set q then replace_char (CHR ''G'') q else replace_char (CHR ''M'') q)"

definition unit_mult :: "string \<Rightarrow> int" where
  "unit_mult q = (if CHR ''G'' \<in> set q then 1024 else 1)"

definition accepted :: "nat \<Rightarrow> string \<Rightarrow> bool" where
  "accepted lim q \<longleftrightarrow>
     int_literal (unit_stripped q) \<and>
     (lim = 0 \<or> length (filter is_digit (literal_body (unit_stripped q))) \<le> lim)"


text \<open>\<open>s.split(c)\<close> for a separator of one character, and \<open>s.startswith(p)\<close>.\<close>

fun split_on :: "char \<Rightarrow> string \<Rightarrow> string list" where
  "split_on c [] = [[]]"
| "split_on c (x # xs) =
     (if x = c then [] # split_on c xs
      else (case split_on c xs of [] \<Rightarrow> [[x]] | w # ws \<Rightarrow> (x # w) # ws))"

definition startswith :: "string \<Rightarrow> string \<Rightarrow> bool" where
  "startswith s p \<longleftrightarrow> take (length p) s = p"

section \<open>The persisted store\<close>

text \<open>
  The tables the handlers read and write, each a list of rows in table order. The schema
  is outside the source file: rows carry the columns the statements of the handlers name.
  A time stamp is an integer count of microseconds; the store compares the text of two
  time stamps, which orders them as the integers are ordered. The type \<open>'f\<close> stands for
  the number a request gives as \<open>cpu_limit\<close> (a Python float); it is only stored and
  printed. Requests are typed: a field of a request body, when present, has the type of
  its column; the password alone is taken as any JSON value, since the handlers call a
  method on it.
\<close>

type_synonym time = int

record user_row =
  u_id :: nat
  u_username :: string
  u_password_hash :: string
  u_email :: string
  u_role :: string
  u_is_active :: bool
  u_last_login :: "time option"

record 'f resource_row =
  r_user_id :: nat
  r_cpu_limit :: 'f
  r_mem_limit :: string
  r_disk_quota :: string
  r_gpu_access :: bool

record session_row =
  s_user_id :: nat
  s_session_token :: string
  s_expires_at :: time
  s_ip_address :: string

record log_row =
  l_user_id :: nat
  l_timestamp :: time
  l_action :: string
  l_details :: string

text \<open>
  \<open>calls\<close> lists the external commands run so far, in order: the effect of a handler
  outside the store. \<open>next_user_id\<close> is the id the store gives to the next account row.
\<close>

record 'f db =
  users :: "user_row list"
  resource_allocations :: "'f resource_row list"
  sessions :: "session_row list"
  activity_log :: "log_row list"
  next_user_id :: nat
  calls :: "string list list"

datatype proc_result =
    Completed int string string
  | Raised string

text \<open>
  What a handler takes from outside the store while it serves one request: the outcome
  of each external command (\<open>Completed returncode stdout stderr\<close>, or the text of the
  exception \<open>subprocess.run\<close> raised), the hash function, the clock (read at most
  twice in a request), the fresh token, the digit limit of \<open>int\<close>, and the float
  operations of the interpreter.
\<close>

record 'f env =
  e_run :: "string list \<Rightarrow> proc_result"
  e_sha256_hex :: "string \<Rightarrow> string"
  e_now :: time
  e_now_later :: time
  e_token_hex :: string
  e_max_str_digits :: nat
  e_float_one :: 'f
  e_float_str :: "'f \<Rightarrow> string"
  e_float_parse :: "string \<Rightarrow> 'f option"
  e_float_sum :: "'f list \<Rightarrow> 'f"
  e_int_truediv :: "int \<Rightarrow> int \<Rightarrow> 'f option"

record request =
  q_authorization :: "string option"
  q_remote_addr :: string

datatype 'f pynum = PInt int | PFloat 'f

datatype 'f body =
    Error string
  | ErrorDetails string string
  | ErrorExc string py_exc
  | Message string
  | UserCreated nat
  | LoginResult string time nat string string
  | Usage "'f pynum" "'f pynum" int "(string \<times> string) list"
  | Unhandled py_exc

type_synonym 'f response = "nat \<times> 'f body"

text \<open>The error taxonomy of the specification, read off the status of a response.\<close>

datatype error_kind =
    ValidationError | AuthenticationError | AuthorizationError
  | NotFoundError | ConflictError | ExternalEnforcementError

definition error_of :: "'f response \<Rightarrow> error_kind option" where
  "error_of r =
     (if fst r = 400 then Some ValidationError
      else if fst r = 401 then Some AuthenticationError
      else if fst r = 403 then Some AuthorizationError
      else if fst r = 404 then Some NotFoundError
      else if fst r = 409 then Some ConflictError
      else if fst r = 500 then Some ExternalEnforcementError
      else None)"

definition run_cmd :: "'f env \<Rightarrow> 'f db \<Rightarrow> string list \<Rightarrow> proc_result \<times> 'f db" where
  "run_cmd env st cmd = (e_run env cmd, st\<lparr>calls := calls st @ [cmd]\<rparr>)"

section \<open>Authentication\<close>

text \<open>
  The value of the \<open>password\<close> field of a request body, as the JSON parser hands it to
  the handler: any JSON value. A text is \<open>JStr\<close> with its code points 0 to 255, or it
  is \<open>JStrSurrogate\<close>, which stands for every text that has a lone surrogate: JSON
  admits such a text and \<open>encode()\<close> rejects it. A number is an integer here; a number
  with a fraction behaves as an integer of the same truth value does. \<open>truthy\<close> is the
  truth value Python gives the value, \<open>py_encode\<close> is \<open>password.encode()\<close>, which only
  a text has, and \<open>text_of\<close> is the text of a value that is one.
\<close>

datatype jvalue =
    JNull | JBool bool | JNum int | JStr string | JStrSurrogate
  | JArray "jvalue list" | JObject "(string \<times> jvalue) list"

fun truthy :: "jvalue \<Rightarrow> bool" where
  "truthy JNull = False"
| "truthy (JBool b) = b"
| "truthy (JNum n) = (n \<noteq> 0)"
| "truthy (JStr s) = (s \<noteq> [])"
| "truthy JStrSurrogate = True"
| "truthy (JArray xs) = (xs \<noteq> [])"
| "truthy (JObject kvs) = (kvs \<noteq> [])"

fun py_encode :: "jvalue \<Rightarrow> py_exc + string" where
  "py_encode (JStr s) = Inr s"
| "py_encode JStrSurrogate = Inl UnicodeEncodeError"
| "py_encode JNull = Inl AttributeError"
| "py_encode (JBool b) = Inl AttributeError"
| "py_encode (JNum n) = Inl AttributeError"
| "py_encode (JArray xs) = Inl AttributeError"
| "py_encode (JObject kvs) = Inl AttributeError"

definition text_of :: "jvalue \<Rightarrow> string" where
  "text_of v = (case v of JStr s \<Rightarrow> s | _ \<Rightarrow> [])"

text \<open>
  \<open>hashlib.sha256(password.encode()).hexdigest()\<close>: the exception of \<open>encode\<close>, or
  the digest of the text.
\<close>

definition generate_password_hash :: "'f env \<Rightarrow> jvalue \<Rightarrow> py_exc + string" where
  "generate_password_hash env password =
     (case py_encode password of
        Inl e \<Rightarrow> Inl e
      | Inr encoded \<Rightarrow> Inr (e_sha256_hex env encoded))"

definition verify_password :: "'f env \<Rightarrow> jvalue \<Rightarrow> string \<Rightarrow> py_exc + bool" where
  "verify_password env password password_hash =
     (case generate_password_hash env password of
        Inl e \<Rightarrow> Inl e
      | Inr h \<Rightarrow> Inr (h = password_hash))"

definition TOKEN_EXPIRY :: time where
  "TOKEN_EXPIRY = 1 * 86400 * 1000000"

record auth_user =
  a_user_id :: nat
  a_username :: string
  a_role :: string

record login_data =
  d_username :: "string option"
  d_password :: "jvalue option"

definition user_by_username :: "'f db \<Rightarrow> string \<Rightarrow> user_row option" where
  "user_by_username st name = find (\<lambda>u. u_username u = name) (users st)"

definition user_by_id :: "'f db \<Rightarrow> nat \<Rightarrow> user_row option" where
  "user_by_id st uid = find (\<lambda>u. u_id u = uid) (users st)"

definition resource_by_user :: "'f db \<Rightarrow> nat \<Rightarrow> 'f resource_row option" where
  "resource_by_user st uid = find (\<lambda>r. r_user_id r = uid) (resource_allocations st)"

text \<open>
  \<open>authenticate_user\<close>: the password is verified only when the account row exists
  (\<open>user and verify_password(...)\<close>), and an exception of the verification leaves the
  function.
\<close>

definition authenticate_user ::
  "'f env \<Rightarrow> 'f db \<Rightarrow> request \<Rightarrow> string \<Rightarrow> jvalue \<Rightarrow> (py_exc + 'f body option) \<times> 'f db" where
  "authenticate_user env st req username password =
     (case user_by_username st username of
        None \<Rightarrow> (Inr None, st)
      | Some user \<Rightarrow>
          (case verify_password env password (u_password_hash user) of
             Inl e \<Rightarrow> (Inl e, st)
           | Inr verified \<Rightarrow>
               if verified then
                 (let token = e_token_hex env;
                      expires_at = e_now env + TOKEN_EXPIRY;
                      st1 = st\<lparr>sessions := sessions st @
                              [\<lparr>s_user_id = u_id user, s_session_token = token,
                                s_expires_at = expires_at,
                                s_ip_address = q_remote_addr req\<rparr>]\<rparr>;
                      st2 = st1\<lparr>users := map (\<lambda>u. if u_id u = u_id user
                                     then u\<lparr>u_last_login := Some (e_now_later env)\<rparr> else u)
                                   (users st1)\<rparr>
                  in (Inr (Some (LoginResult token expires_at (u_id user) (u_username user)
                                   (u_role user))),
                      st2))
               else (Inr None, st)))"

text \<open>
  The join of \<open>verify_token\<close>: the pairs of a session and the account it names, sessions
  in table order; the query takes the first pair with the token that has not expired.
\<close>

definition session_join :: "'f db \<Rightarrow> (session_row \<times> user_row) list" where
  "session_join st =
     concat (map (\<lambda>s. map (\<lambda>u. (s, u)) (filter (\<lambda>u. u_id u = s_user_id s) (users st)))
                 (sessions st))"

definition verify_token :: "'f db \<Rightarrow> time \<Rightarrow> string \<Rightarrow> auth_user option" where
  "verify_token st now token =
     (case find (\<lambda>(s, u). s_session_token s = token \<and> now < s_expires_at s)
                (session_join st) of
        None \<Rightarrow> None
      | Some (s, u) \<Rightarrow>
          Some \<lparr>a_user_id = s_user_id s, a_username = u_username u, a_role = u_role u\<rparr>)"

definition bearer_token :: "string \<Rightarrow> py_exc + string" where
  "bearer_token auth_header =
     (case split_on (CHR '' '') auth_header of
        _ # t # _ \<Rightarrow> Inr t
      | _ \<Rightarrow> Inl IndexError)"

definition require_auth ::
  "'f env \<Rightarrow> 'f db \<Rightarrow> request \<Rightarrow> (auth_user \<Rightarrow> 'f response \<times> 'f db) \<Rightarrow> 'f response \<times> 'f db" where
  "require_auth env st req f =
     (case q_authorization req of
        None \<Rightarrow> ((401, Error ''Authentication required''), st)
      | Some auth_header \<Rightarrow>
          if auth_header = [] \<or> \<not> startswith auth_header ''Bearer ''
          then ((401, Error ''Authentication required''), st)
          else (case bearer_token auth_header of
                  Inl e \<Rightarrow> ((500, Unhandled e), st)
                | Inr token \<Rightarrow>
                    (case verify_token st (e_now env) token of
                       None \<Rightarrow> ((401, Error ''Invalid or expired token''), st)
                     | Some user \<Rightarrow> f user)))"

definition require_admin ::
  "'f db \<Rightarrow> auth_user \<Rightarrow> ('f response \<times> 'f db) \<Rightarrow> 'f response \<times> 'f db" where
  "require_admin st user k =
     (if a_role user \<noteq> ''admin'' then ((403, Error ''Admin privileges required''), st)
      else k)"

section \<open>Login and logout\<close>

definition login :: "'f env \<Rightarrow> 'f db \<Rightarrow> request \<Rightarrow> login_data option \<Rightarrow> 'f response \<times> 'f db" where
  "login env st req data =
     (case data of
        None \<Rightarrow> ((400, Error ''Username and password required''), st)
      | Some d \<Rightarrow>
          (case (d_username d, d_password d) of
             (Some username, Some password) \<Rightarrow>
               if username = [] \<or> \<not> truthy password
               then ((400, Error ''Username and password required''), st)
               else (case authenticate_user env st req username password of
                       (Inl e, st') \<Rightarrow> ((500, Unhandled e), st')
                     | (Inr (Some auth_result), st') \<Rightarrow> ((200, auth_result), st')
                     | (Inr None, st') \<Rightarrow>
                         ((401, Error ''Invalid username or password''), st'))
           | _ \<Rightarrow> ((400, Error ''Username and password required''), st)))"

definition logout :: "'f env \<Rightarrow> 'f db \<Rightarrow> request \<Rightarrow> 'f response \<times> 'f db" where
  "logout env st req =
     require_auth env st req (\<lambda>user.
       (case q_authorization req of
          None \<Rightarrow> ((500, Unhandled TypeError), st)
        | Some auth_header \<Rightarrow>
            (case bearer_token auth_header of
               Inl e \<Rightarrow> ((500, Unhandled e), st)
             | Inr token \<Rightarrow>
                 ((200, Message ''Logged out successfully''),
                  st\<lparr>sessions := filter (\<lambda>s. s_session_token s \<noteq> token) (sessions st)\<rparr>))))"

section \<open>Accounts and quotas\<close>

text \<open>
  \<open>str(n)\<close> for an integer: the decimal digits, with the same digit limit as \<open>int\<close>.
\<close>

definition digit_char :: "int \<Rightarrow> char" where
  "digit_char n = (case drop (nat n) ''0123456789'' of c # _ \<Rightarrow> c | [] \<Rightarrow> CHR ''9'')"

function dec_str :: "int \<Rightarrow> string" where
  "dec_str n =
     (if n < 10 then [digit_char n]
      else dec_str (n div 10) @ [digit_char (n mod 10)])"
  by pat_completeness auto
termination
  by (relation "measure nat") auto

declare dec_str.simps [simp del]

definition py_str_int :: "nat \<Rightarrow> int \<Rightarrow> py_exc + string" where
  "py_str_int lim i =
     (let ds = dec_str \<bar>i\<bar>
      in if 0 < lim \<and> lim < length ds then Inl ValueError
         else Inr (if i < 0 then CHR ''-'' # ds else ds))"

text \<open>The body of a create or update request: each field is absent or has a value.\<close>

record 'f user_data =
  j_username :: "string option"
  j_password :: "jvalue option"
  j_email :: "string option"
  j_role :: "string option"
  j_is_active :: "bool option"
  j_cpu_limit :: "'f option"
  j_mem_limit :: "string option"
  j_disk_quota :: "string option"
  j_gpu_access :: "bool option"

text \<open>\<open>field in data\<close>.\<close>

definition has_field :: "'f user_data \<Rightarrow> string \<Rightarrow> bool" where
  "has_field d field \<longleftrightarrow>
     (field = ''username'' \<and> j_username d \<noteq> None) \<or>
     (field = ''password'' \<and> j_password d \<noteq> None) \<or>
     (field = ''email'' \<and> j_email d \<noteq> None) \<or>
     (field = ''role'' \<and> j_role d \<noteq> None) \<or>
     (field = ''is_active'' \<and> j_is_active d \<noteq> None) \<or>
     (field = ''cpu_limit'' \<and> j_cpu_limit d \<noteq> None) \<or>
     (field = ''mem_limit'' \<and> j_mem_limit d \<noteq> None) \<or>
     (field = ''disk_quota'' \<and> j_disk_quota d \<noteq> None) \<or>
     (field = ''gpu_access'' \<and> j_gpu_access d \<noteq> None)"

definition get_or :: "'a option \<Rightarrow> 'a \<Rightarrow> 'a" where
  "get_or v dflt = (case v of None \<Rightarrow> dflt | Some x \<Rightarrow> x)"

text \<open>
  Modelled from the spec: the generated account id. The schema that generates
  \<open>users.id\<close> is not in the source; the specification says the id is generated and
  stable, so the \<open>INSERT\<close> of \<open>create_user\<close> gives the new row the id \<open>next_user_id\<close>
  and advances it.
\<close>

definition insert_user :: "'f db \<Rightarrow> string \<Rightarrow> string \<Rightarrow> string \<Rightarrow> string \<Rightarrow> bool \<Rightarrow> 'f db" where
  "insert_user st username password_hash email role is_active =
     st\<lparr>users := users st @
           [\<lparr>u_id = next_user_id st, u_username = username,
             u_password_hash = password_hash, u_email = email, u_role = role,
             u_is_active = is_active, u_last_login = None\<rparr>],
        next_user_id := Suc (next_user_id st)\<rparr>"

text \<open>The two statements headed \<open>Rollback database changes\<close> in \<open>create_user\<close>.\<close>

definition rollback :: "'f db \<Rightarrow> nat \<Rightarrow> 'f db" where
  "rollback st user_id =
     (let st1 = st\<lparr>resource_allocations :=
                   filter (\<lambda>r. r_user_id r \<noteq> user_id) (resource_allocations st)\<rparr>
      in st1\<lparr>users := filter (\<lambda>u. u_id u \<noteq> user_id) (users st1)\<rparr>)"

definition create_cmd ::
  "string \<Rightarrow> string \<Rightarrow> string \<Rightarrow> string \<Rightarrow> string \<Rightarrow> string \<Rightarrow> string \<Rightarrow> bool \<Rightarrow> string list" where
  "create_cmd username password email cpu mem disk role gpu_access =
     [''bash'', ''/opt/diycloud/usermgmt/create_user.sh'',
      ''--username'', username, ''--password'', password, ''--email'', email,
      ''--cpu'', cpu, ''--memory'', mem, ''--disk'', disk, ''--role'', role]
     @ (if gpu_access then [''--gpu''] else [])"

text \<open>
  The inner \<open>try\<close> of \<open>create_user\<close>: the conversions, the command, and the rollback on
  a nonzero status and on any exception.
\<close>

definition create_system_user ::
  "'f env \<Rightarrow> 'f db \<Rightarrow> nat \<Rightarrow> string \<Rightarrow> string \<Rightarrow> string \<Rightarrow> string \<Rightarrow> 'f \<Rightarrow> string \<Rightarrow> string
     \<Rightarrow> bool \<Rightarrow> 'f response \<times> 'f db" where
  "create_system_user env st user_id username password email role cpu_limit mem_limit
       disk_quota gpu_access =
     (let lim = e_max_str_digits env;
          failed = (\<lambda>e s. ((500, ErrorExc ''Failed to create system user'' e), rollback s user_id))
      in case to_mb lim mem_limit of
           Inl e \<Rightarrow> failed e st
         | Inr mem_mb \<Rightarrow>
             (case to_mb lim disk_quota of
                Inl e \<Rightarrow> failed e st
              | Inr disk_mb \<Rightarrow>
                  (case py_str_int lim mem_mb of
                     Inl e \<Rightarrow> failed e st
                   | Inr mem \<Rightarrow>
                       (case py_str_int lim disk_mb of
                          Inl e \<Rightarrow> failed e st
                        | Inr disk \<Rightarrow>
                            (case run_cmd env st
                                    (create_cmd username password email
                                       (e_float_str env cpu_limit) mem disk role gpu_access) of
                               (Raised m, st') \<Rightarrow> failed (RunError m) st'
                             | (Completed returncode out err, st') \<Rightarrow>
                                 if returncode \<noteq> 0
                                 then ((500, ErrorDetails ''Failed to create system user'' err),
                                       rollback st' user_id)
                                 else ((201, UserCreated user_id), st'))))))"

text \<open>
  The outer \<open>try\<close> of \<open>create_user\<close>: the two \<open>INSERT\<close>s and then the system user.
  It is reached when the hash of the password has been computed, that is, with a
  password that is a text.
\<close>

definition create_rows ::
  "'f env \<Rightarrow> 'f db \<Rightarrow> 'f user_data \<Rightarrow> string \<Rightarrow> string \<Rightarrow> string \<Rightarrow> string \<Rightarrow> string \<Rightarrow> bool
     \<Rightarrow> 'f response \<times> 'f db" where
  "create_rows env st d username password password_hash email role is_active =
     (let st1 = insert_user st username password_hash email role is_active
      in case user_by_username st1 username of
           None \<Rightarrow> ((500, ErrorExc ''Failed to create user'' TypeError), st1)
         | Some row \<Rightarrow>
             (let user_id = u_id row;
                  cpu_limit = get_or (j_cpu_limit d) (e_float_one env);
                  mem_limit = get_or (j_mem_limit d) ''2G'';
                  disk_quota = get_or (j_disk_quota d) ''5G'';
                  gpu_access = get_or (j_gpu_access d) False;
                  st2 = st1\<lparr>resource_allocations :=
                          resource_allocations st1 @
                          [\<lparr>r_user_id = user_id, r_cpu_limit = cpu_limit,
                            r_mem_limit = mem_limit, r_disk_quota = disk_quota,
                            r_gpu_access = gpu_access\<rparr>]\<rparr>
              in create_system_user env st2 user_id username password email role cpu_limit
                   mem_limit disk_quota gpu_access))"

text \<open>
  \<open>create_user\<close>. The hash of the password is computed before the \<open>try\<close>, so an
  exception of \<open>encode\<close> is not caught: the framework answers 500 and nothing has
  been written.
\<close>

definition create_user ::
  "'f env \<Rightarrow> 'f db \<Rightarrow> request \<Rightarrow> 'f user_data option \<Rightarrow> 'f response \<times> 'f db" where
  "create_user env st req data =
     require_auth env st req (\<lambda>user. require_admin st user
       (case data of
          None \<Rightarrow> ((500, Unhandled TypeError), st)
        | Some d \<Rightarrow>
            (case j_username d of
               None \<Rightarrow> ((400, Error ''Missing required field: username''), st)
             | Some username \<Rightarrow>
                 (case j_password d of
                    None \<Rightarrow> ((400, Error ''Missing required field: password''), st)
                  | Some password \<Rightarrow>
                      (let email = get_or (j_email d) [];
                           role = get_or (j_role d) ''user'';
                           is_active = get_or (j_is_active d) True
                       in if user_by_username st username \<noteq> None
                          then ((409, Error ''Username already exists''), st)
                          else
                            (case generate_password_hash env password of
                               Inl e \<Rightarrow> ((500, Unhandled e), st)
                             | Inr password_hash \<Rightarrow>
                                 create_rows env st d username (text_of password)
                                   password_hash email role is_active))))))"

text \<open>
  \<open>apply_resource_limits\<close>: every exception is caught and turned into \<open>False\<close>. The
  quota row read back from the store holds \<open>gpu_access\<close> as the integer 0 or 1, so
  \<open>str(gpu_access).lower()\<close> is its digit.
\<close>

definition apply_resource_limits ::
  "'f env \<Rightarrow> 'f db \<Rightarrow> string \<Rightarrow> 'f \<Rightarrow> int \<Rightarrow> int \<Rightarrow> bool \<Rightarrow> bool \<times> 'f db" where
  "apply_resource_limits env st username cpu_limit mem_limit disk_quota gpu_access =
     (let lim = e_max_str_digits env
      in case py_str_int lim mem_limit of
           Inl e \<Rightarrow> (False, st)
         | Inr mem \<Rightarrow>
             (case py_str_int lim disk_quota of
                Inl e \<Rightarrow> (False, st)
              | Inr disk \<Rightarrow>
                  (case run_cmd env st
                          [''bash'', ''/opt/diycloud/resources/apply_limits.sh'', username,
                           e_float_str env cpu_limit, mem, disk,
                           (if gpu_access then ''1'' else ''0'')] of
                     (Raised m, st') \<Rightarrow> (False, st')
                   | (Completed returncode out err, st') \<Rightarrow> (returncode = 0, st'))))"

definition admin_fields :: "string list" where
  "admin_fields = [''role'', ''cpu_limit'', ''mem_limit'', ''disk_quota'', ''gpu_access'']"

text \<open>
  The statement \<open>UPDATE users SET ... WHERE id = ?\<close> that \<open>update_user\<close> builds: of the
  fields \<open>email\<close>, \<open>is_active\<close> and the admin fields, those present in the request and
  not admin fields, and \<open>password_hash\<close> when the request has a password. The hash is
  computed while the statement is built, before any statement runs, and its exception
  is not caught.
\<close>

definition set_user_fields :: "'f user_data \<Rightarrow> string option \<Rightarrow> user_row \<Rightarrow> user_row" where
  "set_user_fields d password_hash u =
     (let u1 = (case j_email d of None \<Rightarrow> u | Some v \<Rightarrow> u\<lparr>u_email := v\<rparr>);
          u2 = (case j_is_active d of None \<Rightarrow> u1 | Some v \<Rightarrow> u1\<lparr>u_is_active := v\<rparr>)
      in case password_hash of
           None \<Rightarrow> u2
         | Some h \<Rightarrow> u2\<lparr>u_password_hash := h\<rparr>)"

definition password_hash_of :: "'f env \<Rightarrow> 'f user_data \<Rightarrow> py_exc + string option" where
  "password_hash_of env d =
     (case j_password d of
        None \<Rightarrow> Inr None
      | Some p \<Rightarrow>
          (case generate_password_hash env p of Inl e \<Rightarrow> Inl e | Inr h \<Rightarrow> Inr (Some h)))"

definition update_users_table ::
  "'f env \<Rightarrow> 'f db \<Rightarrow> nat \<Rightarrow> 'f user_data \<Rightarrow> py_exc + 'f db" where
  "update_users_table env st user_id d =
     (case password_hash_of env d of
        Inl e \<Rightarrow> Inl e
      | Inr password_hash \<Rightarrow>
          Inr (if j_email d \<noteq> None \<or> j_is_active d \<noteq> None \<or> j_password d \<noteq> None
               then st\<lparr>users := map (\<lambda>u. if u_id u = user_id
                                       then set_user_fields d password_hash u else u)
                                     (users st)\<rparr>
               else st))"

definition set_resource_fields :: "'f user_data \<Rightarrow> 'f resource_row \<Rightarrow> 'f resource_row" where
  "set_resource_fields d r =
     (let r1 = (case j_cpu_limit d of None \<Rightarrow> r | Some v \<Rightarrow> r\<lparr>r_cpu_limit := v\<rparr>);
          r2 = (case j_mem_limit d of None \<Rightarrow> r1 | Some v \<Rightarrow> r1\<lparr>r_mem_limit := v\<rparr>);
          r3 = (case j_disk_quota d of None \<Rightarrow> r2 | Some v \<Rightarrow> r2\<lparr>r_disk_quota := v\<rparr>)
      in case j_gpu_access d of None \<Rightarrow> r3 | Some v \<Rightarrow> r3\<lparr>r_gpu_access := v\<rparr>)"

text \<open>The part of \<open>update_user\<close> under \<open>if user['role'] == 'admin'\<close>.\<close>

definition update_resources ::
  "'f env \<Rightarrow> 'f db \<Rightarrow> nat \<Rightarrow> user_row \<Rightarrow> 'f user_data \<Rightarrow> 'f response \<times> 'f db" where
  "update_resources env st user_id existing_user d =
     (if j_cpu_limit d \<noteq> None \<or> j_mem_limit d \<noteq> None \<or> j_disk_quota d \<noteq> None
         \<or> j_gpu_access d \<noteq> None
      then
        (let st1 = st\<lparr>resource_allocations :=
                      map (\<lambda>r. if r_user_id r = user_id then set_resource_fields d r else r)
                          (resource_allocations st)\<rparr>
         in case resource_by_user st1 user_id of
              None \<Rightarrow> ((200, Message ''User updated successfully''), st1)
            | Some resource \<Rightarrow>
                (case to_mb (e_max_str_digits env) (r_mem_limit resource) of
                   Inl e \<Rightarrow> ((500, Unhandled e), st1)
                 | Inr mem_mb \<Rightarrow>
                     (case to_mb (e_max_str_digits env) (r_disk_quota resource) of
                        Inl e \<Rightarrow> ((500, Unhandled e), st1)
                      | Inr disk_mb \<Rightarrow>
                          ((200, Message ''User updated successfully''),
                           snd (apply_resource_limits env st1 (u_username existing_user)
                                  (r_cpu_limit resource) mem_mb disk_mb
                                  (r_gpu_access resource))))))
      else ((200, Message ''User updated successfully''), st))"

definition update_user ::
  "'f env \<Rightarrow> 'f db \<Rightarrow> request \<Rightarrow> nat \<Rightarrow> 'f user_data option \<Rightarrow> 'f response \<times> 'f db" where
  "update_user env st req user_id data =
     require_auth env st req (\<lambda>user.
       if a_role user \<noteq> ''admin'' \<and> a_user_id user \<noteq> user_id
       then ((403, Error ''Access denied''), st)
       else
         (case user_by_id st user_id of
            None \<Rightarrow> ((404, Error ''User not found''), st)
          | Some existing_user \<Rightarrow>
              (case data of
                 None \<Rightarrow> ((500, Unhandled TypeError), st)
               | Some d \<Rightarrow>
                   (case (if a_role user \<noteq> ''admin'' then find (has_field d) admin_fields
                          else None) of
                      Some field \<Rightarrow>
                        ((403, Error (''Field '' @ field @ '' can only be updated by an admin'')),
                         st)
                    | None \<Rightarrow>
                        (case update_users_table env st user_id d of
                           Inl e \<Rightarrow> ((500, Unhandled e), st)
                         | Inr st1 \<Rightarrow>
                             if a_role user = ''admin''
                             then update_resources env st1 user_id existing_user d
                             else ((200, Message ''User updated successfully''), st1))))))"

definition delete_user :: "'f env \<Rightarrow> 'f db \<Rightarrow> request \<Rightarrow> nat \<Rightarrow> 'f response \<times> 'f db" where
  "delete_user env st req user_id =
     require_auth env st req (\<lambda>user. require_admin st user
       (case user_by_id st user_id of
          None \<Rightarrow> ((404, Error ''User not found''), st)
        | Some existing_user \<Rightarrow>
            if u_username existing_user = ''admin''
            then ((403, Error ''Cannot delete the main admin user''), st)
            else if a_user_id user = user_id
            then ((403, Error ''Cannot delete your own account''), st)
            else
              (let username = u_username existing_user;
                   st1 = st\<lparr>resource_allocations :=
                             filter (\<lambda>r. r_user_id r \<noteq> user_id) (resource_allocations st)\<rparr>;
                   st2 = st1\<lparr>sessions := filter (\<lambda>s. s_user_id s \<noteq> user_id) (sessions st1)\<rparr>;
                   st3 = st2\<lparr>activity_log :=
                              filter (\<lambda>l. l_user_id l \<noteq> user_id) (activity_log st2)\<rparr>;
                   st4 = st3\<lparr>users := filter (\<lambda>u. u_id u \<noteq> user_id) (users st3)\<rparr>
               in case run_cmd env st4 [''userdel'', ''-rf'', username] of
                    (Raised m, st') \<Rightarrow>
                      ((500, ErrorExc ''Failed to delete system user'' (RunError m)), st')
                  | (Completed returncode out err, st') \<Rightarrow>
                      if returncode \<noteq> 0
                      then ((500, ErrorDetails ''Failed to delete system user'' err), st')
                      else ((200, Message ''User deleted successfully''), st'))))"

section \<open>Usage\<close>

text \<open>
  \<open>str.isspace\<close> and the line boundaries of \<open>str.splitlines\<close>, for the code points 0
  to 255; \<open>strip()\<close>, \<open>splitlines()\<close> and \<open>split()\<close> without arguments.
\<close>

definition py_isspace :: "char \<Rightarrow> bool" where
  "py_isspace c \<longleftrightarrow> (of_char c :: nat) \<in> {9, 10, 11, 12, 13, 28, 29, 30, 31, 32, 133, 160}"

definition py_linebreak :: "char \<Rightarrow> bool" where
  "py_linebreak c \<longleftrightarrow> (of_char c :: nat) \<in> {10, 11, 12, 13, 28, 29, 30, 133}"

definition strip :: "string \<Rightarrow> string" where
  "strip s = rev (dropWhile py_isspace (rev (dropWhile py_isspace s)))"

fun splitlines :: "string \<Rightarrow> string list" where
  "splitlines [] = []"
| "splitlines [c] = (if py_linebreak c then [[]] else [[c]])"
| "splitlines (c # d # cs) =
     (if c = CHR 0x0D \<and> d = CHR 0x0A then [] # splitlines cs
      else if py_linebreak c then [] # splitlines (d # cs)
      else (case splitlines (d # cs) of [] \<Rightarrow> [[c]] | l # ls \<Rightarrow> (c # l) # ls))"

fun split_ws_acc :: "string \<Rightarrow> string \<Rightarrow> string list" where
  "split_ws_acc [] cur = (if cur = [] then [] else [rev cur])"
| "split_ws_acc (c # cs) cur =
     (if py_isspace c then (if cur = [] then split_ws_acc cs [] else rev cur # split_ws_acc cs [])
      else split_ws_acc cs (c # cur))"

definition split_ws :: "string \<Rightarrow> string list" where
  "split_ws s = split_ws_acc s []"

fun map_exc :: "('a \<Rightarrow> py_exc + 'b) \<Rightarrow> 'a list \<Rightarrow> py_exc + 'b list" where
  "map_exc f [] = Inr []"
| "map_exc f (x # xs) =
     (case f x of
        Inl e \<Rightarrow> Inl e
      | Inr y \<Rightarrow> (case map_exc f xs of Inl e \<Rightarrow> Inl e | Inr ys \<Rightarrow> Inr (y # ys)))"

definition py_float :: "'f env \<Rightarrow> string \<Rightarrow> py_exc + 'f" where
  "py_float env s = (case e_float_parse env s of None \<Rightarrow> Inl ValueError | Some x \<Rightarrow> Inr x)"

definition nonblank_lines :: "string \<Rightarrow> string list" where
  "nonblank_lines out = map strip (filter (\<lambda>line. strip line \<noteq> []) (splitlines out))"

definition cpu_usage_of :: "'f env \<Rightarrow> proc_result \<Rightarrow> py_exc + 'f pynum" where
  "cpu_usage_of env cpu_result =
     (case cpu_result of
        Raised m \<Rightarrow> Inl (RunError m)
      | Completed returncode out err \<Rightarrow>
          if returncode = 0 \<and> out \<noteq> [] then
            (case map_exc (py_float env) (nonblank_lines out) of
               Inl e \<Rightarrow> Inl e
             | Inr cpu_values \<Rightarrow>
                 Inr (if cpu_values = [] then PInt 0 else PFloat (e_float_sum env cpu_values)))
          else Inr (PInt 0))"

definition mem_usage_of :: "'f env \<Rightarrow> proc_result \<Rightarrow> py_exc + 'f pynum" where
  "mem_usage_of env mem_result =
     (case mem_result of
        Raised m \<Rightarrow> Inl (RunError m)
      | Completed returncode out err \<Rightarrow>
          if returncode = 0 \<and> out \<noteq> [] then
            (case map_exc (py_int (e_max_str_digits env)) (nonblank_lines out) of
               Inl e \<Rightarrow> Inl e
             | Inr mem_values \<Rightarrow>
                 (case e_int_truediv env (sum_list mem_values) 1024 of
                    None \<Rightarrow> Inl OverflowError
                  | Some x \<Rightarrow> Inr (PFloat x)))
          else Inr (PInt 0))"

definition disk_usage_of :: "'f env \<Rightarrow> proc_result \<Rightarrow> py_exc + int" where
  "disk_usage_of env disk_result =
     (case disk_result of
        Raised m \<Rightarrow> Inl (RunError m)
      | Completed returncode out err \<Rightarrow>
          if returncode = 0 \<and> out \<noteq> [] then
            (case split_ws out of
               [] \<Rightarrow> Inl IndexError
             | w # _ \<Rightarrow> py_int (e_max_str_digits env) w)
          else Inr 0)"

text \<open>The loop over the lines of \<open>nvidia-smi\<close> that keeps the processes of the account.\<close>

definition gpu_filter :: "string list \<Rightarrow> string list \<Rightarrow> (string \<times> string) list" where
  "gpu_filter user_pids lines =
     concat (map (\<lambda>line.
        (case split_on (CHR '','') line of
           p0 # p1 # _ \<Rightarrow>
             (let pid = strip p0
              in if pid \<in> set user_pids then [(pid, strip p1)] else [])
         | _ \<Rightarrow> [])) lines)"

definition nvidia_cmd :: "string list" where
  "nvidia_cmd = [''nvidia-smi'', ''--query-compute-apps=pid,used_memory'',
                 ''--format=csv,noheader'']"

definition ps_cpu_cmd :: "string \<Rightarrow> string list" where
  "ps_cpu_cmd username = [''ps'', ''-u'', username, ''-o'', ''%cpu'', ''--no-headers'']"

definition ps_rss_cmd :: "string \<Rightarrow> string list" where
  "ps_rss_cmd username = [''ps'', ''-u'', username, ''-o'', ''rss'', ''--no-headers'']"

definition du_cmd :: "string \<Rightarrow> string list" where
  "du_cmd username = [''du'', ''-sm'', ''/home/'' @ username]"

definition pgrep_cmd :: "string \<Rightarrow> string list" where
  "pgrep_cmd username = [''pgrep'', ''-u'', username]"

text \<open>The inner \<open>try\<close> of \<open>get_resource_usage\<close>, whose \<open>except\<close> ignores every failure.\<close>

definition gpu_usage_of :: "'f env \<Rightarrow> 'f db \<Rightarrow> string \<Rightarrow> (string \<times> string) list \<times> 'f db" where
  "gpu_usage_of env st username =
     (case run_cmd env st nvidia_cmd of
        (Raised m, st1) \<Rightarrow> ([], st1)
      | (Completed returncode out err, st1) \<Rightarrow>
          if returncode = 0 \<and> out \<noteq> [] then
            (case run_cmd env st1 (pgrep_cmd username) of
               (Raised m, st2) \<Rightarrow> ([], st2)
             | (Completed returncode2 out2 err2, st2) \<Rightarrow>
                 if returncode2 = 0 \<and> out2 \<noteq> []
                 then (gpu_filter (map strip (splitlines out2)) (splitlines out), st2)
                 else ([], st2))
          else ([], st1))"

text \<open>The outer \<open>try\<close>: the three measurements in order, then the accelerator part.\<close>

definition usage_body ::
  "'f env \<Rightarrow> 'f db \<Rightarrow> string \<Rightarrow> (py_exc + 'f body) \<times> 'f db" where
  "usage_body env st username =
     (case run_cmd env st (ps_cpu_cmd username) of
        (cpu_result, st1) \<Rightarrow>
          (case cpu_usage_of env cpu_result of
             Inl e \<Rightarrow> (Inl e, st1)
           | Inr cpu_usage \<Rightarrow>
               (case run_cmd env st1 (ps_rss_cmd username) of
                  (mem_result, st2) \<Rightarrow>
                    (case mem_usage_of env mem_result of
                       Inl e \<Rightarrow> (Inl e, st2)
                     | Inr mem_usage \<Rightarrow>
                         (case run_cmd env st2 (du_cmd username) of
                            (disk_result, st3) \<Rightarrow>
                              (case disk_usage_of env disk_result of
                                 Inl e \<Rightarrow> (Inl e, st3)
                               | Inr disk_usage \<Rightarrow>
                                   (case gpu_usage_of env st3 username of
                                      (gpu_usage, st4) \<Rightarrow>
                                        (Inr (Usage cpu_usage mem_usage disk_usage gpu_usage),
                                         st4))))))))"

definition get_resource_usage :: "'f env \<Rightarrow> 'f db \<Rightarrow> request \<Rightarrow> nat \<Rightarrow> 'f response \<times> 'f db" where
  "get_resource_usage env st req user_id =
     require_auth env st req (\<lambda>user.
       if a_role user \<noteq> ''admin'' \<and> a_user_id user \<noteq> user_id
       then ((403, Error ''Access denied''), st)
       else
         (case user_by_id st user_id of
            None \<Rightarrow> ((404, Error ''User not found''), st)
          | Some existing_user \<Rightarrow>
              (case usage_body env st (u_username existing_user) of
                 (Inl e, st') \<Rightarrow> ((500, ErrorExc ''Failed to get resource usage'' e), st')
               | (Inr usage, st') \<Rightarrow> ((200, usage), st'))))"

section \<open>Callers, store invariants and a sample store\<close>

text \<open>
  The caller \<open>require_auth\<close> hands to a handler, if the request carries a header of the
  form \<open>Bearer token\<close> whose token verifies; \<open>None\<close> when \<open>require_auth\<close> answers the
  request itself.
\<close>

definition caller :: "'f env \<Rightarrow> 'f db \<Rightarrow> request \<Rightarrow> auth_user option" where
  "caller env st req =
     (case q_authorization req of
        None \<Rightarrow> None
      | Some auth_header \<Rightarrow>
          if auth_header = [] \<or> \<not> startswith auth_header ''Bearer '' then None
          else (case bearer_token auth_header of
                  Inl e \<Rightarrow> None
                | Inr token \<Rightarrow> verify_token st (e_now env) token))"

text \<open>
  Referential integrity of the store: every session names an account that exists.
\<close>

definition sessions_reference_accounts :: "'f db \<Rightarrow> bool" where
  "sessions_reference_accounts st \<longleftrightarrow>
     list_all (\<lambda>s. list_ex (\<lambda>u. u_id u = s_user_id s) (users st)) (sessions st)"

text \<open>
  The ids of the store are generated: every account row, and every quota row, has an id
  the store has already handed out.
\<close>

definition ids_below_next :: "'f db \<Rightarrow> bool" where
  "ids_below_next st \<longleftrightarrow>
     list_all (\<lambda>u. u_id u < next_user_id st) (users st) \<and>
     list_all (\<lambda>r. r_user_id r < next_user_id st) (resource_allocations st)"

definition store_ok :: "'f db \<Rightarrow> bool" where
  "store_ok st \<longleftrightarrow> sessions_reference_accounts st \<and> ids_below_next st"

text \<open>An external command fails: it raises, or it completes with a nonzero status.\<close>

definition failed :: "proc_result \<Rightarrow> bool" where
  "failed r \<longleftrightarrow> (case r of Raised m \<Rightarrow> True | Completed returncode out err \<Rightarrow> returncode \<noteq> 0)"

definition sample_db :: "int db" where
  "sample_db =
     \<lparr>users =
        [\<lparr>u_id = 1, u_username = ''admin'', u_password_hash = ''#root'', u_email = ''a@x'',
          u_role = ''admin'', u_is_active = True, u_last_login = None\<rparr>,
         \<lparr>u_id = 2, u_username = ''bob'', u_password_hash = ''#pw'', u_email = ''b@x'',
          u_role = ''user'', u_is_active = True, u_last_login = None\<rparr>,
         \<lparr>u_id = 3, u_username = ''dave'', u_password_hash = ''#ops'', u_email = ''d@x'',
          u_role = ''admin'', u_is_active = True, u_last_login = None\<rparr>],
      resource_allocations =
        [\<lparr>r_user_id = 1, r_cpu_limit = 1, r_mem_limit = ''2G'', r_disk_quota = ''5G'',
          r_gpu_access = False\<rparr>,
         \<lparr>r_user_id = 2, r_cpu_limit = 1, r_mem_limit = ''2G'', r_disk_quota = ''5G'',
          r_gpu_access = False\<rparr>,
         \<lparr>r_user_id = 3, r_cpu_limit = 1, r_mem_limit = ''512M'', r_disk_quota = ''5G'',
          r_gpu_access = True\<rparr>],
      sessions =
        [\<lparr>s_user_id = 1, s_session_token = ''aa'', s_expires_at = 1000,
          s_ip_address = ''10.0.0.1''\<rparr>,
         \<lparr>s_user_id = 2, s_session_token = ''bb'', s_expires_at = 1000,
          s_ip_address = ''10.0.0.2''\<rparr>,
         \<lparr>s_user_id = 3, s_session_token = ''dd'', s_expires_at = 1000,
          s_ip_address = ''10.0.0.3''\<rparr>],
      activity_log =
        [\<lparr>l_user_id = 2, l_timestamp = 5, l_action = ''login'', l_details = []\<rparr>],
      next_user_id = 4,
      calls = []\<rparr>"

text \<open>
  A sample environment: every external command has the outcome \<open>r\<close>, the clock reads
  \<open>t\<close>, the hash of a password is the password after \<open>#\<close>, and the floats are played
  by the integers.
\<close>

definition sample_env :: "proc_result \<Rightarrow> time \<Rightarrow> int env" where
  "sample_env r t =
     \<lparr>e_run = (\<lambda>cmd. r), e_sha256_hex = (\<lambda>p. CHR ''#'' # p), e_now = t, e_now_later = t,
      e_token_hex = ''cc'', e_max_str_digits = 4300, e_float_one = 1,
      e_float_str = (\<lambda>x. ''1.0''),
      e_float_parse = (\<lambda>s. case py_int 0 s of Inl e \<Rightarrow> None | Inr n \<Rightarrow> Some n),
      e_float_sum = sum_list, e_int_truediv = (\<lambda>a b. Some (a div b))\<rparr>"

text \<open>
  A host without accelerator tooling: \<open>nvidia-smi\<close> cannot be started, every other
  command prints \<open>r\<close>.
\<close>

definition no_accelerator_env :: "string \<Rightarrow> time \<Rightarrow> int env" where
  "no_accelerator_env out t =
     (sample_env (Completed 0 out []) t)
       \<lparr>e_run := (\<lambda>cmd. if cmd = nvidia_cmd then Raised ''No such file or directory''
                         else Completed 0 out [])\<rparr>"

definition bearer :: "string \<Rightarrow> request" where
  "bearer token = \<lparr>q_authorization = Some (''Bearer '' @ token), q_remote_addr = ''10.0.0.9''\<rparr>"

section \<open>Properties of the handlers\<close>

subsection \<open>Quantity conversion\<close>

lemma digit_not_special:
  "is_digit c \<Longrightarrow> \<not> int_space c \<and> c \<noteq> CHR ''_'' \<and> c \<noteq> CHR ''+'' \<and> c \<noteq> CHR ''-''
     \<and> c \<noteq> CHR ''G'' \<and> c \<noteq> CHR ''M''"
  by (auto simp: is_digit_def int_space_def)

lemma underscores_ok_digits: "list_all is_digit ds \<Longrightarrow> underscores_ok ds"
  by (induction ds rule: underscores_ok.induct) (auto dest: digit_not_special)

lemma py_int_digits:
  assumes "ds \<noteq> []" and "list_all is_digit ds" and "lim = 0 \<or> length ds \<le> lim"
  shows "py_int lim ds = Inr (dec_val ds)"
proof -
  obtain c cs where ds: "ds = c # cs" using assms(1) by (cases ds) auto
  have c: "is_digit c" using assms(2) ds by simp
  note nc = digit_not_special[OF c]
  have all: "\<forall>x\<in>set ds. is_digit x" using assms(2) by (simp add: list_all_iff)
  have s1: "dropWhile int_space ds = ds"
    using nc ds by simp
  have neg: "(case ds of [] \<Rightarrow> False | c # _ \<Rightarrow> c = CHR ''-'') = False"
    using nc ds by simp
  have s2: "(case ds of [] \<Rightarrow> [] | c # r \<Rightarrow> if c = CHR ''+'' \<or> c = CHR ''-'' then r else ds) = ds"
    using nc ds by simp
  have us: "(case ds of [] \<Rightarrow> False | c # _ \<Rightarrow> c = CHR ''_'') = False"
    using nc ds by simp
  have tw: "takeWhile (\<lambda>c. is_digit c \<or> c = CHR ''_'') ds = ds"
    using all by (simp add: takeWhile_eq_all_conv)
  have dw: "dropWhile (\<lambda>c. is_digit c \<or> c = CHR ''_'') ds = []"
    using all by simp
  have fl: "filter is_digit ds = ds" using all by simp
  have uo: "underscores_ok ds" using assms(2) by (rule underscores_ok_digits)
  have lim: "\<not> (0 < lim \<and> lim < length ds)" using assms(3) by auto
  show ?thesis
    unfolding py_int_def Let_def s1 neg s2 us tw dw fl
    using uo lim assms(1) by simp
qed

lemma filter_digits_unit:
  "list_all is_digit ds \<Longrightarrow> u = CHR ''G'' \<or> u = CHR ''M'' \<Longrightarrow> replace_char u (ds @ [u]) = ds"
  by (auto simp: replace_char_def list_all_iff filter_id_conv dest: digit_not_special)

lemma G_notin_digits: "list_all is_digit ds \<Longrightarrow> CHR ''G'' \<notin> set ds"
  by (auto simp: list_all_iff dest: digit_not_special)

lemma underscores_ok_Cons_us:
  "underscores_ok (CHR ''_'' # cs) \<longleftrightarrow> cs \<noteq> [] \<and> hd cs \<noteq> CHR ''_'' \<and> underscores_ok cs"
  by (cases cs) auto

lemma digit_groups_iff:
  "digit_groups b \<longleftrightarrow>
     b \<noteq> [] \<and> (\<forall>c\<in>set b. is_digit c \<or> c = CHR ''_'') \<and> hd b \<noteq> CHR ''_''
     \<and> underscores_ok b"
proof (induction b rule: digit_groups.induct)
  case 1
  then show ?case by simp
next
  case (2 c)
  then show ?case using digit_not_special[of c] by auto
next
  case (3 c d cs)
  show ?case
  proof (cases "d = CHR ''_''")
    case True
    then show ?thesis
      using 3(1)[OF True] digit_not_special[of c]
      by (auto simp: underscores_ok_Cons_us)
  next
    case False
    then show ?thesis
      using 3(2)[OF False] digit_not_special[of c] by auto
  qed
qed

lemma underscores_ok_last:
  "underscores_ok b \<Longrightarrow> b \<noteq> [] \<Longrightarrow> last b \<noteq> CHR ''_''"
  by (induction b rule: underscores_ok.induct) auto

lemma rstrip_int_append:
  assumes "\<forall>c\<in>set r. int_space c" and "b \<noteq> []" and "\<not> int_space (last b)"
  shows "rstrip_int (b @ r) = b"
proof -
  have "dropWhile int_space (rev r @ rev b) = dropWhile int_space (rev b)"
    by (rule dropWhile_append2) (use assms(1) in auto)
  moreover have "dropWhile int_space (rev b) = rev b"
    using assms(2,3) by (cases "rev b") (auto simp: last_rev hd_rev[symmetric] dest: arg_cong[of _ _ hd])
  ultimately show ?thesis by (simp add: rstrip_int_def)
qed

lemma rstrip_int_split:
  "s = rstrip_int s @ rev (takeWhile int_space (rev s))"
  unfolding rstrip_int_def
  by (metis rev_append rev_rev_ident takeWhile_dropWhile_id)

lemma rstrip_int_last:
  "rstrip_int s \<noteq> [] \<Longrightarrow> \<not> int_space (last (rstrip_int s))"
  unfolding rstrip_int_def
  by (metis hd_dropWhile last_rev rev_is_Nil_conv)

lemma trailing_spaces: "\<forall>c\<in>set (rev (takeWhile int_space (rev s))). int_space c"
  by (auto dest: set_takeWhileD)

lemma body_split:
  assumes "\<forall>c\<in>set b. is_digit c \<or> c = CHR ''_''" and "\<forall>c\<in>set r. int_space c"
  shows "takeWhile (\<lambda>c. is_digit c \<or> c = CHR ''_'') (b @ r) = b"
    and "dropWhile (\<lambda>c. is_digit c \<or> c = CHR ''_'') (b @ r) = r"
proof -
  have n: "\<not> (is_digit c \<or> c = CHR ''_'')" if "int_space c" for c
    using that by (auto simp: is_digit_def int_space_def)
  have t: "takeWhile (\<lambda>c. is_digit c \<or> c = CHR ''_'') r = []"
    using assms(2) n by (cases r) auto
  have d: "dropWhile (\<lambda>c. is_digit c \<or> c = CHR ''_'') r = r"
    using assms(2) n by (cases r) auto
  show "takeWhile (\<lambda>c. is_digit c \<or> c = CHR ''_'') (b @ r) = b"
    using assms(1) t by (simp add: takeWhile_append2)
  show "dropWhile (\<lambda>c. is_digit c \<or> c = CHR ''_'') (b @ r) = r"
    using assms(1) d by (simp add: dropWhile_append2)
qed

lemma starts_with_iff:
  "(case xs of [] \<Rightarrow> False | c # _ \<Rightarrow> c = u) \<longleftrightarrow> xs \<noteq> [] \<and> hd xs = u"
  by (cases xs) auto

text \<open>The checks of \<open>py_int\<close> after the sign, against the grammar.\<close>

lemma body_checks_iff:
  fixes s2 :: string
  defines "body \<equiv> takeWhile (\<lambda>c. is_digit c \<or> c = CHR ''_'') s2"
    and "rest \<equiv> dropWhile (\<lambda>c. is_digit c \<or> c = CHR ''_'') s2"
  shows "(\<not> (case s2 of [] \<Rightarrow> False | c # _ \<Rightarrow> c = CHR ''_'') \<and> underscores_ok body
           \<and> body \<noteq> [] \<and> dropWhile int_space rest = [])
         \<longleftrightarrow> digit_groups (rstrip_int s2)"
    and "digit_groups (rstrip_int s2) \<Longrightarrow> body = rstrip_int s2"
proof -
  have s2: "s2 = body @ rest" by (simp add: body_def rest_def)
  have pb: "\<forall>c\<in>set body. is_digit c \<or> c = CHR ''_''"
    by (auto simp: body_def dest: set_takeWhileD)
  have fwd: "digit_groups (rstrip_int s2) \<and> body = rstrip_int s2"
    if a: "\<not> (case s2 of [] \<Rightarrow> False | c # _ \<Rightarrow> c = CHR ''_'')" "underscores_ok body"
      "body \<noteq> []" "dropWhile int_space rest = []"
  proof -
    have r: "\<forall>c\<in>set rest. int_space c" using a(4) by (simp add: dropWhile_eq_Nil_conv)
    have "last body \<noteq> CHR ''_''" using a(2,3) by (rule underscores_ok_last)
    moreover have "last body \<in> set body" using a(3) by simp
    ultimately have "is_digit (last body)" using pb by blast
    then have ns: "\<not> int_space (last body)" using digit_not_special by blast
    have eq: "rstrip_int s2 = body"
      using rstrip_int_append[OF r a(3) ns] s2 by simp
    have "hd body = hd s2" using a(3) s2 by (metis hd_append2)
    moreover have "s2 \<noteq> []" using a(3) s2 by auto
    ultimately have "hd body \<noteq> CHR ''_''" using a(1) by (simp add: starts_with_iff)
    then have "digit_groups body"
      using a(2,3) pb by (simp add: digit_groups_iff)
    then show ?thesis using eq by simp
  qed
  have bwd: "\<not> (case s2 of [] \<Rightarrow> False | c # _ \<Rightarrow> c = CHR ''_'') \<and> underscores_ok body
           \<and> body \<noteq> [] \<and> dropWhile int_space rest = [] \<and> body = rstrip_int s2"
    if g: "digit_groups (rstrip_int s2)"
  proof -
    define b where "b = rstrip_int s2"
    define r where "r = rev (takeWhile int_space (rev s2))"
    have sp: "s2 = b @ r" unfolding b_def r_def by (rule rstrip_int_split)
    have rs: "\<forall>c\<in>set r. int_space c" unfolding r_def by (rule trailing_spaces)
    from g have b: "b \<noteq> []" "\<forall>c\<in>set b. is_digit c \<or> c = CHR ''_''" "hd b \<noteq> CHR ''_''"
      "underscores_ok b"
      unfolding b_def digit_groups_iff by auto
    have bd: "body = b" unfolding body_def sp using body_split(1)[OF b(2) rs] .
    have rt: "rest = r" unfolding rest_def sp using body_split(2)[OF b(2) rs] .
    have "hd s2 = hd b" using b(1) sp by simp
    then have "\<not> (case s2 of [] \<Rightarrow> False | c # _ \<Rightarrow> c = CHR ''_'')"
      using b(3) by (simp add: starts_with_iff)
    moreover have "dropWhile int_space rest = []" using rs rt by simp
    ultimately show ?thesis using b bd b_def by simp
  qed
  show "(\<not> (case s2 of [] \<Rightarrow> False | c # _ \<Rightarrow> c = CHR ''_'') \<and> underscores_ok body
           \<and> body \<noteq> [] \<and> dropWhile int_space rest = [])
         \<longleftrightarrow> digit_groups (rstrip_int s2)"
    using fwd bwd by blast
  show "digit_groups (rstrip_int s2) \<Longrightarrow> body = rstrip_int s2"
    using bwd by blast
qed


lemma py_int_spec:
  "py_int lim s =
     (if int_literal s \<and> (lim = 0 \<or> length (filter is_digit (literal_body s)) \<le> lim)
      then Inr (literal_value s) else Inl ValueError)"
proof -
  define s2 where "s2 = unsigned (lstrip_int s)"
  define body where "body = takeWhile (\<lambda>c. is_digit c \<or> c = CHR ''_'') s2"
  define rest where "rest = dropWhile (\<lambda>c. is_digit c \<or> c = CHR ''_'') s2"
  define neg where "neg = (case dropWhile int_space s of [] \<Rightarrow> False | c # _ \<Rightarrow> c = CHR ''-'')"
  have s2': "(case dropWhile int_space s of [] \<Rightarrow> []
                | c # r \<Rightarrow> if c = CHR ''+'' \<or> c = CHR ''-'' then r else dropWhile int_space s) = s2"
    by (simp add: s2_def unsigned_def lstrip_int_def)
  have unf: "py_int lim s =
     (if (case s2 of [] \<Rightarrow> False | c # _ \<Rightarrow> c = CHR ''_'') then Inl ValueError
      else if \<not> underscores_ok body then Inl ValueError
      else if 0 < lim \<and> lim < length (filter is_digit body) then Inl ValueError
      else if body = [] then Inl ValueError
      else if dropWhile int_space rest \<noteq> [] then Inl ValueError
      else Inr (if neg then - dec_val (filter is_digit body) else dec_val (filter is_digit body)))"
    unfolding py_int_def Let_def s2' body_def rest_def neg_def by (rule refl)
  have lb: "literal_body s = rstrip_int s2"
    by (simp add: literal_body_def s2_def)
  note chk = body_checks_iff[of s2, folded body_def rest_def]
  show ?thesis
  proof (cases "digit_groups (rstrip_int s2)")
    case True
    then have b: "body = rstrip_int s2" by (rule chk(2))
    have a: "\<not> (case s2 of [] \<Rightarrow> False | c # _ \<Rightarrow> c = CHR ''_'')" "underscores_ok body"
      "body \<noteq> []" "dropWhile int_space rest = []"
      using True chk(1) by blast+
    have v: "literal_value s = (if neg then - dec_val (filter is_digit body)
        else dec_val (filter is_digit body))"
      by (simp add: literal_value_def lb b neg_def lstrip_int_def Let_def)
    show ?thesis
      unfolding unf using a True
      by (auto simp: int_literal_def lb b[symmetric] v)
  next
    case False
    then have "(case s2 of [] \<Rightarrow> False | c # _ \<Rightarrow> c = CHR ''_'') \<or> \<not> underscores_ok body
        \<or> body = [] \<or> dropWhile int_space rest \<noteq> []"
      using chk(1) by blast
    then have "py_int lim s = Inl ValueError"
      unfolding unf by auto
    then show ?thesis using False by (simp add: int_literal_def lb)
  qed
qed

lemma to_mb_spec:
  "to_mb lim q =
     (if accepted lim q then Inr (literal_value (unit_stripped q) * unit_mult q)
      else Inl ValueError)"
  by (simp add: to_mb_def py_int_spec accepted_def unit_stripped_def unit_mult_def)

text \<open>Which characters a literal can have, and that it has a digit.\<close>

lemma set_rstrip_int: "set s \<subseteq> set (rstrip_int s) \<union> {c. int_space c}"
proof -
  have "set s = set (rstrip_int s) \<union> set (rev (takeWhile int_space (rev s)))"
    using rstrip_int_split[of s] by (metis set_append)
  then show ?thesis using trailing_spaces[of s] by auto
qed

lemma set_unsigned: "set s \<subseteq> set (unsigned s) \<union> {CHR ''+'', CHR ''-''}"
  by (cases s) (auto simp: unsigned_def)

lemma set_lstrip_int: "set s \<subseteq> set (lstrip_int s) \<union> {c. int_space c}"
proof -
  have "set s = set (takeWhile int_space s) \<union> set (dropWhile int_space s)"
    by (metis set_append takeWhile_dropWhile_id)
  then show ?thesis by (auto simp: lstrip_int_def dest: set_takeWhileD)
qed

lemma int_literal_chars:
  assumes "int_literal s" and "c \<in> set s"
  shows "is_digit c \<or> c = CHR ''_'' \<or> c = CHR ''+'' \<or> c = CHR ''-'' \<or> int_space c"
proof -
  have b: "\<forall>x\<in>set (literal_body s). is_digit x \<or> x = CHR ''_''"
    using assms(1) unfolding int_literal_def digit_groups_iff by blast
  have "c \<in> set (lstrip_int s) \<or> int_space c" using assms(2) set_lstrip_int by blast
  then have "c \<in> set (unsigned (lstrip_int s)) \<or> c = CHR ''+'' \<or> c = CHR ''-'' \<or> int_space c"
    using set_unsigned by blast
  then have "c \<in> set (literal_body s) \<or> c = CHR ''+'' \<or> c = CHR ''-'' \<or> int_space c"
    unfolding literal_body_def using set_rstrip_int by blast
  then show ?thesis using b by blast
qed

lemma set_literal_body: "set (literal_body s) \<subseteq> set s"
proof -
  have "set (rstrip_int x) \<subseteq> set x" for x
    using rstrip_int_split[of x] by (metis Un_upper1 set_append)
  moreover have "set (unsigned x) \<subseteq> set x" for x
    by (cases x) (auto simp: unsigned_def)
  moreover have "set (lstrip_int x) \<subseteq> set x" for x
    by (auto simp: lstrip_int_def dest: set_dropWhileD)
  ultimately show ?thesis unfolding literal_body_def by blast
qed

lemma int_literal_has_digit:
  assumes "int_literal s"
  shows "\<exists>c\<in>set s. is_digit c"
proof -
  from assms have "literal_body s \<noteq> []" "is_digit (hd (literal_body s))"
    unfolding int_literal_def by (cases "literal_body s" rule: digit_groups.cases; simp)+
  then have "hd (literal_body s) \<in> set (literal_body s)" by simp
  then show ?thesis using set_literal_body \<open>is_digit (hd (literal_body s))\<close> by blast
qed

lemma set_unit_stripped:
  "set (unit_stripped q) \<subseteq> set q"
  "c \<in> set q \<Longrightarrow> c \<noteq> CHR ''G'' \<Longrightarrow> c \<noteq> CHR ''M'' \<Longrightarrow> c \<in> set (unit_stripped q)"
  "CHR ''G'' \<in> set q \<Longrightarrow> CHR ''M'' \<in> set q \<Longrightarrow> CHR ''M'' \<in> set (unit_stripped q)"
  by (auto simp: unit_stripped_def replace_char_def)


lemma to_mb_rejects:
  "\<not> int_literal (unit_stripped q) \<Longrightarrow> to_mb lim q = Inl ValueError"
  by (simp add: to_mb_spec accepted_def)

lemma to_mb_bad_char:
  assumes "x \<in> set q" and "\<not> is_digit x" and "\<not> int_space x"
    and "x \<notin> {CHR ''_'', CHR ''+'', CHR ''-'', CHR ''G'', CHR ''M''}"
  shows "to_mb lim q = Inl ValueError"
proof (rule to_mb_rejects)
  have "x \<in> set (unit_stripped q)" using assms(1,4) by (intro set_unit_stripped(2)) auto
  then show "\<not> int_literal (unit_stripped q)"
    using int_literal_chars[of "unit_stripped q" x] assms(2,3,4) by auto
qed

lemma to_mb_sign_suffix:
  assumes "list_all is_digit ds" and "c = CHR ''+'' \<or> c = CHR ''-''"
  shows "to_mb lim (ds @ [c]) = Inl ValueError"
proof (rule to_mb_rejects)
  have nd: "\<not> is_digit c" "\<not> int_space c" "c \<noteq> CHR ''_''" "c \<noteq> CHR ''G''" "c \<noteq> CHR ''M''"
    using assms(2) by (auto simp: is_digit_def int_space_def)
  have all: "\<forall>x\<in>set ds. is_digit x" using assms(1) by (simp add: list_all_iff)
  have us: "unit_stripped (ds @ [c]) = ds @ [c]"
    using all nd digit_not_special
    by (auto simp: unit_stripped_def replace_char_def filter_id_conv)
  show "\<not> int_literal (unit_stripped (ds @ [c]))"
  proof (cases ds)
    case Nil
    then show ?thesis
      using assms(2) unfolding us
      by (auto simp: int_literal_def literal_body_def lstrip_int_def unsigned_def
          rstrip_int_def int_space_def)
  next
    case (Cons d ds')
    then have d: "is_digit d" using all by simp
    note dn = digit_not_special[OF d]
    have l: "lstrip_int (ds @ [c]) = ds @ [c]"
      using Cons dn by (simp add: lstrip_int_def)
    have u: "unsigned (ds @ [c]) = ds @ [c]"
      using Cons dn by (simp add: unsigned_def)
    have r: "rstrip_int (ds @ [c]) = ds @ [c]"
      using rstrip_int_append[of "[]" "ds @ [c]"] nd(2) by simp
    have "literal_body (ds @ [c]) = ds @ [c]"
      by (simp add: literal_body_def l u r)
    then show ?thesis
      unfolding us int_literal_def digit_groups_iff using nd by auto
  qed
qed

text \<open>
  Claim C1, as the code has it. The conversion gives exactly what the grammar says:
  when the quantity without its unit letters is an integer literal within the digit
  limit, its value, times 1024 if the quantity has a \<open>G\<close>; and \<open>ValueError\<close> for every
  other input. So one or more digits and then \<open>G\<close> give the digits' value times 1024,
  and with \<open>M\<close> the digits' value. Digits and then any other character that is not a
  digit, a blank or an underscore raise \<open>ValueError\<close>; so does every input that has a
  character other than digits, blanks, underscores, signs, \<open>G\<close> and \<open>M\<close>, every input
  without a digit, and every input with both \<open>G\<close> and \<open>M\<close>.
\<close>

theorem to_mb_units:
  "to_mb lim q =
      (if accepted lim q then Inr (literal_value (unit_stripped q) * unit_mult q)
       else Inl ValueError)
   \<and> (ds \<noteq> [] \<and> list_all is_digit ds \<and> (lim = 0 \<or> length ds \<le> lim) \<longrightarrow>
        to_mb lim (ds @ ''G'') = Inr (dec_val ds * 1024)
        \<and> to_mb lim (ds @ ''M'') = Inr (dec_val ds))
   \<and> (list_all is_digit ds \<and> \<not> is_digit c \<and> \<not> int_space c
        \<and> c \<notin> {CHR ''_'', CHR ''G'', CHR ''M''} \<longrightarrow>
        to_mb lim (ds @ [c]) = Inl ValueError)
   \<and> ((\<exists>x\<in>set q. \<not> is_digit x \<and> \<not> int_space x
          \<and> x \<notin> {CHR ''_'', CHR ''+'', CHR ''-'', CHR ''G'', CHR ''M''}) \<longrightarrow>
        to_mb lim q = Inl ValueError)
   \<and> (\<not> list_ex is_digit q \<longrightarrow> to_mb lim q = Inl ValueError)
   \<and> (CHR ''G'' \<in> set q \<and> CHR ''M'' \<in> set q \<longrightarrow> to_mb lim q = Inl ValueError)"
proof -
  have a: "to_mb lim q =
      (if accepted lim q then Inr (literal_value (unit_stripped q) * unit_mult q)
       else Inl ValueError)"
    by (rule to_mb_spec)
  have b: "to_mb lim (ds @ ''G'') = Inr (dec_val ds * 1024)
        \<and> to_mb lim (ds @ ''M'') = Inr (dec_val ds)"
    if h: "ds \<noteq> []" "list_all is_digit ds" "lim = 0 \<or> length ds \<le> lim"
  proof -
    have g: "to_mb lim (ds @ ''G'') = Inr (dec_val ds * 1024)"
      using h by (simp add: to_mb_def filter_digits_unit py_int_digits)
    have m: "to_mb lim (ds @ ''M'') = Inr (dec_val ds)"
      using h G_notin_digits[OF h(2)]
      by (simp add: to_mb_def filter_digits_unit py_int_digits)
    from g m show ?thesis by simp
  qed
  have c: "to_mb lim (ds @ [c]) = Inl ValueError"
    if h: "list_all is_digit ds" "\<not> is_digit c" "\<not> int_space c"
      "c \<notin> {CHR ''_'', CHR ''G'', CHR ''M''}"
  proof (cases "c = CHR ''+'' \<or> c = CHR ''-''")
    case True
    then show ?thesis using h(1) by (rule to_mb_sign_suffix[rotated])
  next
    case False
    then show ?thesis
      using h by (intro to_mb_bad_char[of c]) auto
  qed
  have d: "to_mb lim q = Inl ValueError"
    if "\<exists>x\<in>set q. \<not> is_digit x \<and> \<not> int_space x
          \<and> x \<notin> {CHR ''_'', CHR ''+'', CHR ''-'', CHR ''G'', CHR ''M''}"
    using that to_mb_bad_char by blast
  have e: "to_mb lim q = Inl ValueError" if "\<not> list_ex is_digit q"
  proof (rule to_mb_rejects)
    show "\<not> int_literal (unit_stripped q)"
      using that int_literal_has_digit[of "unit_stripped q"] set_unit_stripped(1)[of q]
      by (auto simp: list_ex_iff)
  qed
  have f: "to_mb lim q = Inl ValueError" if "CHR ''G'' \<in> set q" "CHR ''M'' \<in> set q"
  proof (rule to_mb_rejects)
    have "CHR ''M'' \<in> set (unit_stripped q)" using that by (rule set_unit_stripped(3))
    then show "\<not> int_literal (unit_stripped q)"
      using int_literal_chars[of "unit_stripped q" "CHR ''M''"]
      by (auto simp: is_digit_def int_space_def)
  qed
  from a b c d e f show ?thesis by blast
qed

text \<open>
  \<open>"2G"\<close> is 2048 and \<open>"512M"\<close> is 512; \<open>"2X"\<close>, \<open>"abcG"\<close>, the empty text and
  \<open>"2GM"\<close> raise; \<open>"1G2"\<close> is accepted, as the literal 12, and \<open>"1__0G"\<close> is not.
\<close>

theorem to_mb_units_witness:
  "to_mb 4300 ''2G'' = Inr 2048 \<and> to_mb 4300 ''512M'' = Inr 512
   \<and> to_mb 4300 ''2X'' = Inl ValueError
   \<and> to_mb 4300 ''abcG'' = Inl ValueError
   \<and> to_mb 4300 [] = Inl ValueError
   \<and> to_mb 4300 ''2GM'' = Inl ValueError
   \<and> accepted 4300 ''1G2'' \<and> to_mb 4300 ''1G2'' = Inr (12 * 1024)
   \<and> \<not> accepted 4300 ''1__0G''"
proof -
  have dg: "list_all is_digit ''2''" "list_all is_digit ''512''"
    by (simp_all add: is_digit_def)
  have v: "dec_val ''2'' = 2" "dec_val ''512'' = 512"
    by (simp_all add: dec_val_def digit_val_def)
  have x: "\<not> is_digit CHR ''X''" "\<not> int_space CHR ''X''"
    "\<not> is_digit CHR ''a''" "\<not> int_space CHR ''a''"
    by (simp_all add: is_digit_def int_space_def)
  have a1: "to_mb 4300 ''2G'' = Inr 2048"
    using to_mb_units[of 4300 "''2X''" "''2''" "CHR ''X''", THEN conjunct2, THEN conjunct1] dg v
    by simp
  have a2: "to_mb 4300 ''512M'' = Inr 512"
    using to_mb_units[of 4300 "''2X''" "''512''" "CHR ''X''", THEN conjunct2, THEN conjunct1] dg v
    by simp
  have a3: "to_mb 4300 ''2X'' = Inl ValueError"
    using to_mb_units[of 4300 "''2X''" "''2''" "CHR ''X''", THEN conjunct2, THEN conjunct2,
        THEN conjunct1] dg x
    by simp
  have a4: "to_mb 4300 ''abcG'' = Inl ValueError"
    using to_mb_units[of 4300 "''abcG''" "''2''" "CHR ''X''", THEN conjunct2, THEN conjunct2,
        THEN conjunct2, THEN conjunct1] x
    by simp
  have a5: "to_mb 4300 [] = Inl ValueError"
    using to_mb_units[of 4300 "[]" "''2''" "CHR ''X''", THEN conjunct2, THEN conjunct2,
        THEN conjunct2, THEN conjunct2, THEN conjunct1]
    by simp
  have a6: "to_mb 4300 ''2GM'' = Inl ValueError"
    using to_mb_units[of 4300 "''2GM''" "''2''" "CHR ''X''", THEN conjunct2, THEN conjunct2,
        THEN conjunct2, THEN conjunct2, THEN conjunct2]
    by simp
  have acc: "accepted 4300 ''1G2''"
    by (simp add: accepted_def unit_stripped_def replace_char_def int_literal_def
        literal_body_def lstrip_int_def rstrip_int_def unsigned_def int_space_def is_digit_def)
  have val: "literal_value (unit_stripped ''1G2'') * unit_mult ''1G2'' = 12 * 1024"
    by (simp add: unit_stripped_def unit_mult_def replace_char_def literal_value_def
        literal_body_def lstrip_int_def rstrip_int_def unsigned_def int_space_def is_digit_def
        dec_val_def digit_val_def)
  have a7: "to_mb 4300 ''1G2'' = Inr (12 * 1024)"
    using to_mb_units[of 4300 "''1G2''" "''2''" "CHR ''X''", THEN conjunct1] acc val
    by simp
  have a8: "\<not> accepted 4300 ''1__0G''"
    by (simp add: accepted_def unit_stripped_def replace_char_def int_literal_def
        literal_body_def lstrip_int_def rstrip_int_def unsigned_def int_space_def is_digit_def)
  from a1 a2 a3 a4 a5 a6 acc a7 a8 show ?thesis by simp
qed

text \<open>
  Claim C1 as stated fails: the conversion deletes every \<open>G\<close> (or else every \<open>M\<close>)
  and hands the rest to \<open>int\<close>, so \<open>"1G2"\<close> and the bare \<open>"5"\<close>, neither of the form
  digits-then-unit, convert instead of raising.
\<close>

theorem to_mb_not_strict:
  "\<not> quantity_form (CHR ''G'') ''1G2'' \<and> \<not> quantity_form (CHR ''M'') ''1G2''
   \<and> to_mb 4300 ''1G2'' = Inr 12288
   \<and> \<not> quantity_form (CHR ''G'') ''5'' \<and> \<not> quantity_form (CHR ''M'') ''5''
   \<and> to_mb 4300 ''5'' = Inr 5"
  by (simp add: quantity_form_def to_mb_def replace_char_def py_int_def int_space_def
        is_digit_def dec_val_def digit_val_def)

subsection \<open>Sessions\<close>

lemma set_session_join:
  "set (session_join st) =
     {(s, u). s \<in> set (sessions st) \<and> u \<in> set (users st) \<and> u_id u = s_user_id s}"
  by (auto simp: session_join_def)

lemma verify_token_None_iff:
  "verify_token st now token = None \<longleftrightarrow>
     \<not> (\<exists>s\<in>set (sessions st). \<exists>u\<in>set (users st).
          u_id u = s_user_id s \<and> s_session_token s = token \<and> now < s_expires_at s)"
proof -
  have "verify_token st now token = None \<longleftrightarrow>
        find (\<lambda>(s, u). s_session_token s = token \<and> now < s_expires_at s) (session_join st) = None"
    by (simp add: verify_token_def split: option.splits prod.splits)
  then show ?thesis
    by (auto simp: find_None_iff set_session_join)
qed

lemma verify_token_wf:
  assumes "sessions_reference_accounts st"
  shows "verify_token st now token \<noteq> None \<longleftrightarrow>
     (\<exists>s\<in>set (sessions st). s_session_token s = token \<and> now < s_expires_at s)"
  using assms unfolding verify_token_None_iff sessions_reference_accounts_def
  by (auto simp: list_all_iff list_ex_iff)

lemma split_on_no_sep: "c \<notin> set t \<Longrightarrow> split_on c t = [t]"
  by (induction t) auto

lemma split_on_append: "c \<notin> set p \<Longrightarrow> split_on c (p @ c # t) = p # split_on c t"
  by (induction p) auto

lemma bearer_token_simple:
  "CHR '' '' \<notin> set token \<Longrightarrow> bearer_token (''Bearer '' @ token) = Inr token"
  using split_on_append[of "CHR '' ''" "''Bearer''" token]
  by (simp add: bearer_token_def split_on_no_sep)

lemma caller_bearer:
  "CHR '' '' \<notin> set token \<Longrightarrow> caller env st (bearer token) = verify_token st (e_now env) token"
  by (simp add: caller_def bearer_def startswith_def bearer_token_simple[simplified])

lemma require_auth_caller:
  "caller env st req = Some user \<Longrightarrow> require_auth env st req f = f user"
  by (auto simp: caller_def require_auth_def split: option.splits if_splits sum.splits)

lemma require_auth_none:
  "caller env st req = None \<Longrightarrow>
     snd (require_auth env st req f) = st \<and> fst (fst (require_auth env st req f)) \<in> {401, 500}"
  by (auto simp: caller_def require_auth_def split: option.splits if_splits sum.splits)

text \<open>
  Claim C5. In a store where every session names an existing account, \<open>verify_token\<close>
  succeeds exactly when some session row has the token and \<open>now < expires_at\<close>. So it
  succeeds at \<open>expires_at - 1\<close> for every session; with distinct tokens it fails at
  \<open>expires_at\<close> and at every later time; and \<open>require_auth\<close> turns the failure into the
  401 answer.
\<close>

theorem verify_token_strict_expiry:
  assumes "sessions_reference_accounts st"
  shows "(verify_token st now token \<noteq> None \<longleftrightarrow>
            (\<exists>s\<in>set (sessions st). s_session_token s = token \<and> now < s_expires_at s))
       \<and> (\<forall>s\<in>set (sessions st).
            verify_token st (s_expires_at s - 1) (s_session_token s) \<noteq> None)
       \<and> (\<forall>s\<in>set (sessions st). distinct (map s_session_token (sessions st)) \<longrightarrow>
            (\<forall>t\<ge>s_expires_at s. verify_token st t (s_session_token s) = None))
       \<and> (CHR '' '' \<notin> set token \<and> verify_token st (e_now env) token = None \<longrightarrow>
            require_auth env st (bearer token) f = ((401, Error ''Invalid or expired token''), st))"
proof -
  have a: "verify_token st now token \<noteq> None \<longleftrightarrow>
            (\<exists>s\<in>set (sessions st). s_session_token s = token \<and> now < s_expires_at s)"
    by (rule verify_token_wf[OF assms])
  have b: "\<forall>s\<in>set (sessions st).
            verify_token st (s_expires_at s - 1) (s_session_token s) \<noteq> None"
    unfolding verify_token_wf[OF assms] by auto
  have c: "\<forall>s\<in>set (sessions st). distinct (map s_session_token (sessions st)) \<longrightarrow>
            (\<forall>t\<ge>s_expires_at s. verify_token st t (s_session_token s) = None)"
  proof (intro ballI impI allI)
    fix s t assume s: "s \<in> set (sessions st)"
      and d: "distinct (map s_session_token (sessions st))" and t: "s_expires_at s \<le> t"
    have "\<And>s'. s' \<in> set (sessions st) \<Longrightarrow> s_session_token s' = s_session_token s \<Longrightarrow> s' = s"
      using d s by (meson distinct_map inj_onD)
    then show "verify_token st t (s_session_token s) = None"
      unfolding verify_token_None_iff using t by fastforce
  qed
  have d: "CHR '' '' \<notin> set token \<and> verify_token st (e_now env) token = None \<longrightarrow>
            require_auth env st (bearer token) f = ((401, Error ''Invalid or expired token''), st)"
    by (simp add: require_auth_def bearer_def startswith_def bearer_token_simple[simplified])
  from a b c d show ?thesis by blast
qed


text \<open>
  The sample store: the session \<open>bb\<close> expires at 1000, verifies at 999 and not at 1000.
\<close>

theorem verify_token_strict_expiry_witness:
  "sessions_reference_accounts sample_db
   \<and> verify_token sample_db 999 ''bb'' \<noteq> None
   \<and> verify_token sample_db 1000 ''bb'' = None
   \<and> require_auth (sample_env (Raised []) 1000) sample_db (bearer ''bb'')
        (\<lambda>u. ((200, Message []), sample_db))
      = ((401, Error ''Invalid or expired token''), sample_db)"
proof -
  have wf: "sessions_reference_accounts sample_db"
    by (simp add: sessions_reference_accounts_def sample_db_def)
  have s: "\<lparr>s_user_id = 2, s_session_token = ''bb'', s_expires_at = 1000,
            s_ip_address = ''10.0.0.2''\<rparr> \<in> set (sessions sample_db)"
    by (simp add: sample_db_def)
  have d: "distinct (map s_session_token (sessions sample_db))"
    by (simp add: sample_db_def)
  note t = verify_token_strict_expiry[OF wf, of 999 "''bb''" "sample_env (Raised []) 1000"
      "\<lambda>u. ((200, Message []), sample_db)"]
  have a: "verify_token sample_db 999 ''bb'' \<noteq> None"
    using t s by fastforce
  have b: "verify_token sample_db 1000 ''bb'' = None"
    using t s d by fastforce
  have c: "require_auth (sample_env (Raised []) 1000) sample_db (bearer ''bb'')
        (\<lambda>u. ((200, Message []), sample_db))
      = ((401, Error ''Invalid or expired token''), sample_db)"
    using t b by (simp add: sample_env_def)
  from wf a b c show ?thesis by simp
qed

lemma logout_bearer:
  assumes "q_authorization req = Some (''Bearer '' @ token)" and "CHR '' '' \<notin> set token"
  shows "logout env st req =
     (case verify_token st (e_now env) token of
        None \<Rightarrow> ((401, Error ''Invalid or expired token''), st)
      | Some user \<Rightarrow>
          ((200, Message ''Logged out successfully''),
           st\<lparr>sessions := filter (\<lambda>s. s_session_token s \<noteq> token) (sessions st)\<rparr>))"
  using assms
  by (simp add: logout_def require_auth_def startswith_def bearer_token_simple[simplified]
      split: option.splits)

text \<open>
  Claim C2, as the code has it. \<open>logout\<close> stands behind \<open>require_auth\<close>: with a token
  that has an unexpired session it deletes every session row with that token and answers
  200; with a token whose session is expired or absent it answers 401 and leaves the
  store as it was.
\<close>

theorem logout_requires_valid_session:
  assumes "sessions_reference_accounts st"
    and "q_authorization req = Some (''Bearer '' @ token)" and "CHR '' '' \<notin> set token"
  shows "((\<exists>s\<in>set (sessions st). s_session_token s = token \<and> e_now env < s_expires_at s) \<longrightarrow>
            logout env st req =
              ((200, Message ''Logged out successfully''),
               st\<lparr>sessions := filter (\<lambda>s. s_session_token s \<noteq> token) (sessions st)\<rparr>))
       \<and> (\<not> (\<exists>s\<in>set (sessions st). s_session_token s = token \<and> e_now env < s_expires_at s) \<longrightarrow>
            logout env st req = ((401, Error ''Invalid or expired token''), st))"
  using verify_token_wf[OF assms(1), of "e_now env" token]
  by (auto simp: logout_bearer[OF assms(2,3)] split: option.splits)

text \<open>
  The sample store: logging out \<open>bb\<close> at 999 leaves the sessions \<open>aa\<close> and \<open>dd\<close>; the unknown
  token \<open>zz\<close> is answered 401.
\<close>

theorem logout_requires_valid_session_witness:
  "sessions_reference_accounts sample_db
   \<and> logout (sample_env (Raised []) 999) sample_db (bearer ''bb'') =
       ((200, Message ''Logged out successfully''),
        sample_db\<lparr>sessions := [\<lparr>s_user_id = 1, s_session_token = ''aa'', s_expires_at = 1000,
                                 s_ip_address = ''10.0.0.1''\<rparr>,
                                \<lparr>s_user_id = 3, s_session_token = ''dd'', s_expires_at = 1000,
                                 s_ip_address = ''10.0.0.3''\<rparr>]\<rparr>)
   \<and> logout (sample_env (Raised []) 1000) sample_db (bearer ''zz'') =
       ((401, Error ''Invalid or expired token''), sample_db)"
proof -
  have wf: "sessions_reference_accounts sample_db"
    by (simp add: sessions_reference_accounts_def sample_db_def)
  have a: "logout (sample_env (Raised []) 999) sample_db (bearer ''bb'') =
       ((200, Message ''Logged out successfully''),
        sample_db\<lparr>sessions := [\<lparr>s_user_id = 1, s_session_token = ''aa'', s_expires_at = 1000,
                                 s_ip_address = ''10.0.0.1''\<rparr>,
                                \<lparr>s_user_id = 3, s_session_token = ''dd'', s_expires_at = 1000,
                                 s_ip_address = ''10.0.0.3''\<rparr>]\<rparr>)"
    using logout_requires_valid_session[OF wf, of "bearer ''bb''" "''bb''" "sample_env (Raised []) 999"]
    by (simp add: bearer_def sample_env_def sample_db_def)
  have b: "logout (sample_env (Raised []) 1000) sample_db (bearer ''zz'') =
       ((401, Error ''Invalid or expired token''), sample_db)"
    using logout_requires_valid_session[OF wf, of "bearer ''zz''" "''zz''" "sample_env (Raised []) 1000"]
    by (simp add: bearer_def sample_env_def sample_db_def)
  from wf a b show ?thesis by simp
qed

text \<open>
  Claim C2 as stated fails: at time 1000 the session \<open>bb\<close> has expired, and logging it out
  is answered with the authentication error 401; the expired row stays in the store.
\<close>

theorem logout_expired_is_error:
  "logout (sample_env (Raised []) 1000) sample_db (bearer ''bb'') =
     ((401, Error ''Invalid or expired token''), sample_db)
   \<and> error_of (fst (logout (sample_env (Raised []) 1000) sample_db (bearer ''bb'')))
       = Some AuthenticationError
   \<and> \<lparr>s_user_id = 2, s_session_token = ''bb'', s_expires_at = 1000,
       s_ip_address = ''10.0.0.2''\<rparr> \<in> set (sessions sample_db)"
proof -
  have h: "q_authorization (bearer ''bb'') = Some (''Bearer '' @ ''bb'')"
    by (simp add: bearer_def)
  have v: "verify_token sample_db (e_now (sample_env (Raised []) 1000)) ''bb'' = None"
    by (simp add: sample_env_def verify_token_def session_join_def sample_db_def)
  have "logout (sample_env (Raised []) 1000) sample_db (bearer ''bb'') =
     ((401, Error ''Invalid or expired token''), sample_db)"
    by (simp add: logout_bearer[OF h] v)
  then show ?thesis by (simp add: error_of_def sample_db_def)
qed

lemma verify_token_account:
  assumes "verify_token st now token = Some user"
  shows "\<exists>u\<in>set (users st). u_id u = a_user_id user \<and> u_role u = a_role user"
proof -
  from assms obtain s u where
    f: "find (\<lambda>(s, u). s_session_token s = token \<and> now < s_expires_at s) (session_join st)
          = Some (s, u)"
    and user: "user = \<lparr>a_user_id = s_user_id s, a_username = u_username u, a_role = u_role u\<rparr>"
    by (auto simp: verify_token_def split: option.splits)
  from f have "(s, u) \<in> set (session_join st)"
    by (auto simp: find_Some_iff in_set_conv_nth)
  then have "u \<in> set (users st)" and "u_id u = s_user_id s"
    by (auto simp: set_session_join)
  with user show ?thesis by auto
qed

lemma caller_account:
  assumes "caller env st req = Some user"
  shows "user_by_id st (a_user_id user) \<noteq> None"
proof -
  from assms obtain token where "verify_token st (e_now env) token = Some user"
    by (auto simp: caller_def split: option.splits if_splits sum.splits)
  from verify_token_account[OF this] show ?thesis
    by (auto simp: user_by_id_def find_None_iff)
qed


subsection \<open>Login\<close>

text \<open>
  With a password that is a text of the modelled code points, a login attempt for a
  name the store does not have and one for a name it has with a password that does not
  verify get the same answer, 401 with the one generic message, and neither changes
  the store.
\<close>

lemma login_failure_text_password:
  assumes "user_by_username st u1 = None"
    and "user_by_username st u2 = Some row"
    and "e_sha256_hex env p2 \<noteq> u_password_hash row"
    and "u1 \<noteq> []" and "p1 \<noteq> []" and "u2 \<noteq> []" and "p2 \<noteq> []"
  shows "login env st req1 (Some \<lparr>d_username = Some u1, d_password = Some (JStr p1)\<rparr>)
           = ((401, Error ''Invalid username or password''), st)
       \<and> login env st req2 (Some \<lparr>d_username = Some u2, d_password = Some (JStr p2)\<rparr>)
           = ((401, Error ''Invalid username or password''), st)"
  using assms
  by (simp add: login_def authenticate_user_def verify_password_def generate_password_hash_def)

text \<open>
  With a password that \<open>encode\<close> rejects (a JSON value that is not a text, or a text
  with a lone surrogate) the two causes are told apart: for a name the store does not
  have the password is never looked at and the answer is 401, and for a name it has the
  exception of \<open>encode\<close> leaves the handler and the answer is 500.
\<close>

lemma login_failure_unencodable_password:
  assumes "user_by_username st u1 = None"
    and "user_by_username st u2 = Some row"
    and "truthy pw" and "py_encode pw = Inl e"
    and "u1 \<noteq> []" and "u2 \<noteq> []"
  shows "login env st req1 (Some \<lparr>d_username = Some u1, d_password = Some pw\<rparr>)
           = ((401, Error ''Invalid username or password''), st)
       \<and> login env st req2 (Some \<lparr>d_username = Some u2, d_password = Some pw\<rparr>)
           = ((500, Unhandled e), st)"
  using assms
  by (simp add: login_def authenticate_user_def verify_password_def generate_password_hash_def)

text \<open>
  Claim C8 fails on the code. In the sample store, which has \<open>bob\<close> and no \<open>carol\<close>, a
  login with the JSON number 12345 as password is answered 401 for \<open>carol\<close> and 500
  for \<open>bob\<close>, and so is a login with a text that has a lone surrogate: the answer tells
  whether the name exists.
\<close>

theorem login_failure_distinguishable:
  "user_by_username sample_db ''carol'' = None
   \<and> user_by_username sample_db ''bob'' \<noteq> None
   \<and> login (sample_env (Raised []) 0) sample_db (bearer [])
        (Some \<lparr>d_username = Some ''carol'', d_password = Some (JNum 12345)\<rparr>)
      = ((401, Error ''Invalid username or password''), sample_db)
   \<and> login (sample_env (Raised []) 0) sample_db (bearer [])
        (Some \<lparr>d_username = Some ''bob'', d_password = Some (JNum 12345)\<rparr>)
      = ((500, Unhandled AttributeError), sample_db)
   \<and> login (sample_env (Raised []) 0) sample_db (bearer [])
        (Some \<lparr>d_username = Some ''carol'', d_password = Some JStrSurrogate\<rparr>)
      = ((401, Error ''Invalid username or password''), sample_db)
   \<and> login (sample_env (Raised []) 0) sample_db (bearer [])
        (Some \<lparr>d_username = Some ''bob'', d_password = Some JStrSurrogate\<rparr>)
      = ((500, Unhandled UnicodeEncodeError), sample_db)"
  by code_simp

subsection \<open>Create\<close>

lemma find_append_new:
  "find P xs = None \<Longrightarrow> P x \<Longrightarrow> find P (xs @ [x]) = Some x"
  by (induction xs) (auto split: if_splits)

lemma rollback_users:
  "users (rollback st uid) = filter (\<lambda>u. u_id u \<noteq> uid) (users st)"
  by (simp add: rollback_def Let_def)

lemma rollback_resources:
  "resource_allocations (rollback st uid)
     = filter (\<lambda>r. r_user_id r \<noteq> uid) (resource_allocations st)"
  by (simp add: rollback_def Let_def)

lemma rollback_run_cmd:
  "users (rollback (snd (run_cmd env st cmd)) uid) = users (rollback st uid)"
  "resource_allocations (rollback (snd (run_cmd env st cmd)) uid)
     = resource_allocations (rollback st uid)"
  by (simp_all add: rollback_users rollback_resources run_cmd_def)

lemma take2_create_cmd:
  "take 2 (create_cmd username password email cpu mem disk role gpu_access)
     = [''bash'', ''/opt/diycloud/usermgmt/create_user.sh'']"
  by (simp add: create_cmd_def)

lemma create_system_user_failed:
  assumes "\<forall>cmd. take 2 cmd = [''bash'', ''/opt/diycloud/usermgmt/create_user.sh'']
             \<longrightarrow> failed (e_run env cmd)"
  shows "fst (fst (create_system_user env st uid n p e r c m d g)) = 500
       \<and> users (snd (create_system_user env st uid n p e r c m d g)) = users (rollback st uid)
       \<and> resource_allocations (snd (create_system_user env st uid n p e r c m d g))
           = resource_allocations (rollback st uid)"
proof -
  let ?lim = "e_max_str_digits env"
  show ?thesis
  proof (cases "to_mb ?lim m")
    case Inl
    then show ?thesis by (simp add: create_system_user_def)
  next
    case mem_mb: (Inr mem_mb)
    show ?thesis
    proof (cases "to_mb ?lim d")
      case Inl
      then show ?thesis using mem_mb by (simp add: create_system_user_def)
    next
      case disk_mb: (Inr disk_mb)
      show ?thesis
      proof (cases "py_str_int ?lim mem_mb")
        case Inl
        then show ?thesis using mem_mb disk_mb by (simp add: create_system_user_def)
      next
        case mem: (Inr mem)
        show ?thesis
        proof (cases "py_str_int ?lim disk_mb")
          case Inl
          then show ?thesis using mem_mb disk_mb mem by (simp add: create_system_user_def)
        next
          case disk: (Inr disk)
          have "failed (e_run env (create_cmd n p e (e_float_str env c) mem disk r g))"
            using assms take2_create_cmd by blast
          then show ?thesis
            using mem_mb disk_mb mem disk
            by (cases "e_run env (create_cmd n p e (e_float_str env c) mem disk r g)")
               (simp_all add: create_system_user_def run_cmd_def failed_def rollback_users
                  rollback_resources)
        qed
      qed
    qed
  qed
qed

text \<open>
  Claim C4. An admin creates an account, with a text as password, under a name the
  store does not have, and the
  provisioning script fails at every invocation (it raises, or ends with a nonzero
  status). Then \<open>create_user\<close> answers 500, and in the store it leaves a lookup of the
  name finds no account and a lookup of the account's id finds no quota; in a store
  whose ids are generated, the account and quota tables are what they were before.
\<close>

theorem create_user_rollback:
  assumes "caller env st req = Some user" and "a_role user = ''admin''"
    and "j_username d = Some username" and "j_password d = Some (JStr password)"
    and "user_by_username st username = None"
    and "\<forall>cmd. take 2 cmd = [''bash'', ''/opt/diycloud/usermgmt/create_user.sh'']
           \<longrightarrow> failed (e_run env cmd)"
  shows "fst (fst (create_user env st req (Some d))) = 500
       \<and> error_of (fst (create_user env st req (Some d))) = Some ExternalEnforcementError
       \<and> user_by_username (snd (create_user env st req (Some d))) username = None
       \<and> resource_by_user (snd (create_user env st req (Some d))) (next_user_id st) = None
       \<and> (ids_below_next st \<longrightarrow>
            users (snd (create_user env st req (Some d))) = users st
          \<and> resource_allocations (snd (create_user env st req (Some d)))
              = resource_allocations st)"
proof -
  define email where "email = get_or (j_email d) []"
  define role where "role = get_or (j_role d) ''user''"
  define is_active where "is_active = get_or (j_is_active d) True"
  define row where "row = \<lparr>u_id = next_user_id st, u_username = username,
             u_password_hash = e_sha256_hex env password, u_email = email,
             u_role = role, u_is_active = is_active, u_last_login = None\<rparr>"
  define st1 where "st1 = insert_user st username (e_sha256_hex env password)
      email role is_active"
  define q where "q = \<lparr>r_user_id = next_user_id st,
      r_cpu_limit = get_or (j_cpu_limit d) (e_float_one env),
      r_mem_limit = get_or (j_mem_limit d) ''2G'',
      r_disk_quota = get_or (j_disk_quota d) ''5G'',
      r_gpu_access = get_or (j_gpu_access d) False\<rparr>"
  define st2 where "st2 = st1\<lparr>resource_allocations := resource_allocations st1 @ [q]\<rparr>"
  define res where "res = create_system_user env st2 (next_user_id st) username password email
      role (r_cpu_limit q) (r_mem_limit q) (r_disk_quota q) (r_gpu_access q)"
  have u1: "users st1 = users st @ [row]"
    by (simp add: st1_def insert_user_def row_def)
  have look: "user_by_username st1 username = Some row"
    using assms(5) unfolding user_by_username_def u1
    by (intro find_append_new) (auto simp: row_def)
  have eq: "create_user env st req (Some d) = res"
    unfolding create_user_def require_auth_caller[OF assms(1)]
    using assms(2,3,4,5) look
    by (simp add: require_admin_def Let_def res_def st2_def st1_def q_def email_def role_def
        is_active_def row_def create_rows_def generate_password_hash_def text_of_def)
  note r = create_system_user_failed[OF assms(6), of st2 "next_user_id st" username password
      email role "r_cpu_limit q" "r_mem_limit q" "r_disk_quota q" "r_gpu_access q",
      folded res_def]
  have us: "users (snd res) = filter (\<lambda>u. u_id u \<noteq> next_user_id st) (users st)"
    using r by (simp add: rollback_users st2_def u1 row_def)
  have rs: "resource_allocations (snd res)
      = filter (\<lambda>r. r_user_id r \<noteq> next_user_id st) (resource_allocations st)"
    using r by (simp add: rollback_resources st2_def st1_def insert_user_def q_def)
  have a: "fst (fst res) = 500" using r by simp
  have b: "user_by_username (snd res) username = None"
    using assms(5) by (auto simp: user_by_username_def us find_None_iff)
  have c: "resource_by_user (snd res) (next_user_id st) = None"
    by (auto simp: resource_by_user_def rs find_None_iff)
  have d: "ids_below_next st \<longrightarrow>
      users (snd res) = users st \<and> resource_allocations (snd res) = resource_allocations st"
    unfolding us rs ids_below_next_def list_all_iff
    by (auto simp: filter_id_conv)
  from a b c d show ?thesis unfolding eq by (simp add: error_of_def)
qed

text \<open>
  The sample store: the admin creates \<open>carol\<close> and the script ends with status 1.
\<close>

theorem create_user_rollback_witness:
  "caller (sample_env (Completed 1 [] ''no space left'') 0) sample_db (bearer ''aa'')
     = Some \<lparr>a_user_id = 1, a_username = ''admin'', a_role = ''admin''\<rparr>
   \<and> user_by_username sample_db ''carol'' = None
   \<and> ids_below_next sample_db
   \<and> fst (create_user (sample_env (Completed 1 [] ''no space left'') 0) sample_db (bearer ''aa'')
        (Some \<lparr>j_username = Some ''carol'', j_password = Some (JStr ''pw''), j_email = None,
               j_role = None, j_is_active = None, j_cpu_limit = None, j_mem_limit = None,
               j_disk_quota = None, j_gpu_access = None\<rparr>))
       = (500, ErrorDetails ''Failed to create system user'' ''no space left'')
   \<and> user_by_username
        (snd (create_user (sample_env (Completed 1 [] ''no space left'') 0) sample_db
           (bearer ''aa'')
           (Some \<lparr>j_username = Some ''carol'', j_password = Some (JStr ''pw''), j_email = None,
               j_role = None, j_is_active = None, j_cpu_limit = None, j_mem_limit = None,
               j_disk_quota = None, j_gpu_access = None\<rparr>))) ''carol'' = None
   \<and> users
        (snd (create_user (sample_env (Completed 1 [] ''no space left'') 0) sample_db
           (bearer ''aa'')
           (Some \<lparr>j_username = Some ''carol'', j_password = Some (JStr ''pw''), j_email = None,
               j_role = None, j_is_active = None, j_cpu_limit = None, j_mem_limit = None,
               j_disk_quota = None, j_gpu_access = None\<rparr>))) = users sample_db
   \<and> resource_allocations
        (snd (create_user (sample_env (Completed 1 [] ''no space left'') 0) sample_db
           (bearer ''aa'')
           (Some \<lparr>j_username = Some ''carol'', j_password = Some (JStr ''pw''), j_email = None,
               j_role = None, j_is_active = None, j_cpu_limit = None, j_mem_limit = None,
               j_disk_quota = None, j_gpu_access = None\<rparr>))) = resource_allocations sample_db"
proof -
  let ?env = "sample_env (Completed 1 [] ''no space left'') 0"
  let ?d = "\<lparr>j_username = Some ''carol'', j_password = Some (JStr ''pw''), j_email = None,
               j_role = None, j_is_active = None, j_cpu_limit = None, j_mem_limit = None,
               j_disk_quota = None, j_gpu_access = None\<rparr> :: int user_data"
  have c: "caller ?env sample_db (bearer ''aa'')
     = Some \<lparr>a_user_id = 1, a_username = ''admin'', a_role = ''admin''\<rparr>"
    by code_simp
  have r: "a_role \<lparr>a_user_id = 1, a_username = ''admin'', a_role = ''admin''\<rparr> = ''admin''"
    by simp
  have n: "j_username ?d = Some ''carol''" and p: "j_password ?d = Some (JStr ''pw'')"
    by simp_all
  have u: "user_by_username sample_db ''carol'' = None"
    by code_simp
  have f: "\<forall>cmd. take 2 cmd = [''bash'', ''/opt/diycloud/usermgmt/create_user.sh'']
           \<longrightarrow> failed (e_run ?env cmd)"
    by (simp add: sample_env_def failed_def)
  have i: "ids_below_next sample_db"
    by (simp add: ids_below_next_def sample_db_def)
  note t = create_user_rollback[OF c r n p u f]
  have b: "fst (create_user ?env sample_db (bearer ''aa'') (Some ?d))
       = (500, ErrorDetails ''Failed to create system user'' ''no space left'')"
    by code_simp
  from c u i t b show ?thesis by simp
qed

text \<open>
  A quantity the conversion rejects takes the same path: the admin creates \<open>carol\<close>
  with \<open>mem_limit = 2X\<close>, the rows are written and removed again, no command is run,
  and the answer is 500.
\<close>

lemma create_user_bad_quantity:
  "create_user (sample_env (Completed 0 [] []) 0) sample_db (bearer ''aa'')
        (Some \<lparr>j_username = Some ''carol'', j_password = Some (JStr ''pw''), j_email = None,
               j_role = None, j_is_active = None, j_cpu_limit = None,
               j_mem_limit = Some ''2X'', j_disk_quota = None, j_gpu_access = None\<rparr>)
     = ((500, ErrorExc ''Failed to create system user'' ValueError),
        sample_db\<lparr>next_user_id := 5\<rparr>)"
  by code_simp

text \<open>
  A password that \<open>encode\<close> rejects ends the request before anything is written.
\<close>

lemma create_user_unencodable_password:
  "create_user (sample_env (Completed 0 [] []) 0) sample_db (bearer ''aa'')
        (Some \<lparr>j_username = Some ''carol'', j_password = Some (JNum 7), j_email = None,
               j_role = None, j_is_active = None, j_cpu_limit = None,
               j_mem_limit = None, j_disk_quota = None, j_gpu_access = None\<rparr>)
     = ((500, Unhandled AttributeError), sample_db)"
  by code_simp

subsection \<open>Update\<close>

lemma run_cmd_frame:
  "users (snd (run_cmd env st cmd)) = users st"
  "resource_allocations (snd (run_cmd env st cmd)) = resource_allocations st"
  "sessions (snd (run_cmd env st cmd)) = sessions st"
  "activity_log (snd (run_cmd env st cmd)) = activity_log st"
  "next_user_id (snd (run_cmd env st cmd)) = next_user_id st"
  by (simp_all add: run_cmd_def)

lemma apply_resource_limits_frame:
  "users (snd (apply_resource_limits env st n c m d g)) = users st"
  "resource_allocations (snd (apply_resource_limits env st n c m d g)) = resource_allocations st"
  "sessions (snd (apply_resource_limits env st n c m d g)) = sessions st"
  "activity_log (snd (apply_resource_limits env st n c m d g)) = activity_log st"
  "next_user_id (snd (apply_resource_limits env st n c m d g)) = next_user_id st"
  by (simp_all add: apply_resource_limits_def run_cmd_def Let_def
      split: sum.splits proc_result.splits)

lemma update_resources_users:
  "users (snd (update_resources env st uid eu d)) = users st"
  by (simp add: update_resources_def Let_def apply_resource_limits_frame
      split: option.splits sum.splits)

lemma set_user_fields_keeps:
  "u_id (set_user_fields d ph u) = u_id u"
  "u_username (set_user_fields d ph u) = u_username u"
  "u_role (set_user_fields d ph u) = u_role u"
  "u_last_login (set_user_fields d ph u) = u_last_login u"
  by (simp_all add: set_user_fields_def Let_def split: option.splits)

lemma update_users_table_keeps:
  assumes "update_users_table env st uid d = Inr st1"
  shows "map (\<lambda>u. (u_id u, u_username u, u_role u, u_last_login u)) (users st1)
     = map (\<lambda>u. (u_id u, u_username u, u_role u, u_last_login u)) (users st)"
  using assms
  by (auto simp: update_users_table_def set_user_fields_keeps split: sum.splits if_splits)

text \<open>
  Claim C10. Whatever the caller and the request, \<open>update_user\<close> leaves the role of
  every account row as it was, and with it the id, the username and the last login:
  the statement it builds for the \<open>users\<close> table sets only \<open>email\<close>, \<open>is_active\<close> and
  \<open>password_hash\<close>.
\<close>

theorem update_user_keeps_role:
  "map (\<lambda>u. (u_id u, u_username u, u_role u, u_last_login u))
       (users (snd (update_user env st req user_id data)))
     = map (\<lambda>u. (u_id u, u_username u, u_role u, u_last_login u)) (users st)"
proof (cases "caller env st req")
  case None
  then show ?thesis unfolding update_user_def by (simp add: require_auth_none)
next
  case (Some user)
  show ?thesis
    unfolding update_user_def require_auth_caller[OF Some]
    by (auto simp: Let_def update_resources_users update_users_table_keeps
        split: option.splits sum.splits)
qed

text \<open>
  Claim C7. A caller who is not an admin and whose update request has one of the admin
  fields (\<open>role\<close>, \<open>cpu_limit\<close>, \<open>mem_limit\<close>, \<open>disk_quota\<close>, \<open>gpu_access\<close>) is
  answered 403, on the caller's own account as on any other, and the store is left as it
  was.
\<close>

theorem update_user_admin_fields_forbidden:
  assumes "caller env st req = Some user" and "a_role user \<noteq> ''admin''"
    and "\<exists>field\<in>set admin_fields. has_field d field"
  shows "fst (fst (update_user env st req user_id (Some d))) = 403
       \<and> error_of (fst (update_user env st req user_id (Some d))) = Some AuthorizationError
       \<and> snd (update_user env st req user_id (Some d)) = st"
proof (cases "a_user_id user = user_id")
  case False
  then show ?thesis
    using assms(2) unfolding update_user_def require_auth_caller[OF assms(1)]
    by (simp add: error_of_def)
next
  case True
  from caller_account[OF assms(1)] True obtain row where row: "user_by_id st user_id = Some row"
    by auto
  from assms(3) obtain field where "find (has_field d) admin_fields = Some field"
    by (cases "find (has_field d) admin_fields") (auto simp: find_None_iff)
  then show ?thesis
    using assms(2) row unfolding update_user_def require_auth_caller[OF assms(1)]
    by (simp add: error_of_def)
qed

text \<open>
  The sample store: \<open>bob\<close> asks for \<open>role = admin\<close> on his own account.
\<close>

theorem update_user_admin_fields_forbidden_witness:
  "caller (sample_env (Raised []) 0) sample_db (bearer ''bb'')
     = Some \<lparr>a_user_id = 2, a_username = ''bob'', a_role = ''user''\<rparr>
   \<and> fst (update_user (sample_env (Raised []) 0) sample_db (bearer ''bb'') 2
        (Some \<lparr>j_username = None, j_password = None, j_email = None, j_role = Some ''admin'',
               j_is_active = None, j_cpu_limit = None, j_mem_limit = None,
               j_disk_quota = None, j_gpu_access = None\<rparr>))
       = (403, Error ''Field role can only be updated by an admin'')
   \<and> snd (update_user (sample_env (Raised []) 0) sample_db (bearer ''bb'') 2
        (Some \<lparr>j_username = None, j_password = None, j_email = None, j_role = Some ''admin'',
               j_is_active = None, j_cpu_limit = None, j_mem_limit = None,
               j_disk_quota = None, j_gpu_access = None\<rparr>))
       = sample_db"
proof -
  have c: "caller (sample_env (Raised []) 0) sample_db (bearer ''bb'')
     = Some \<lparr>a_user_id = 2, a_username = ''bob'', a_role = ''user''\<rparr>"
    by code_simp
  have r: "a_role \<lparr>a_user_id = 2, a_username = ''bob'', a_role = ''user''\<rparr> \<noteq> ''admin''"
    by simp
  have h: "\<exists>field\<in>set admin_fields. has_field
      \<lparr>j_username = None, j_password = None, j_email = None, j_role = Some ''admin'',
               j_is_active = None, j_cpu_limit = None, j_mem_limit = None,
               j_disk_quota = None, j_gpu_access = (None :: bool option)\<rparr> field"
    by (simp add: admin_fields_def has_field_def)
  note t = update_user_admin_fields_forbidden[OF c r h, of 2]
  have b: "fst (update_user (sample_env (Raised []) 0) sample_db (bearer ''bb'') 2
        (Some \<lparr>j_username = None, j_password = None, j_email = None, j_role = Some ''admin'',
               j_is_active = None, j_cpu_limit = None, j_mem_limit = None,
               j_disk_quota = None, j_gpu_access = None\<rparr>))
       = (403, Error ''Field role can only be updated by an admin'')"
    by code_simp
  from c t b show ?thesis by simp
qed

text \<open>
  The sample store again: the admin sends \<open>role = admin\<close> and \<open>mem_limit = 2X\<close> for
  \<open>bob\<close>. The role stays, the quota row takes the new text, and the conversion that
  follows raises, which the handler does not catch.
\<close>

lemma update_user_bad_quantity:
  "fst (update_user (sample_env (Completed 0 [] []) 0) sample_db (bearer ''aa'') 2
        (Some \<lparr>j_username = None, j_password = None, j_email = None, j_role = Some ''admin'',
               j_is_active = None, j_cpu_limit = None, j_mem_limit = Some ''2X'',
               j_disk_quota = None, j_gpu_access = None\<rparr>))
     = (500, Unhandled ValueError)
   \<and> map u_role (users (snd (update_user (sample_env (Completed 0 [] []) 0) sample_db
        (bearer ''aa'') 2
        (Some \<lparr>j_username = None, j_password = None, j_email = None, j_role = Some ''admin'',
               j_is_active = None, j_cpu_limit = None, j_mem_limit = Some ''2X'',
               j_disk_quota = None, j_gpu_access = None\<rparr>))))
     = [''admin'', ''user'', ''admin'']
   \<and> map r_mem_limit (resource_allocations (snd (update_user (sample_env (Completed 0 [] []) 0)
        sample_db (bearer ''aa'') 2
        (Some \<lparr>j_username = None, j_password = None, j_email = None, j_role = Some ''admin'',
               j_is_active = None, j_cpu_limit = None, j_mem_limit = Some ''2X'',
               j_disk_quota = None, j_gpu_access = None\<rparr>))))
     = [''2G'', ''2X'', ''512M'']"
  by code_simp

text \<open>
  A password that \<open>encode\<close> rejects ends the request before any statement runs.
\<close>

lemma update_user_unencodable_password:
  "update_user (sample_env (Completed 0 [] []) 0) sample_db (bearer ''bb'') 2
        (Some \<lparr>j_username = None, j_password = Some JStrSurrogate, j_email = Some ''n@x'',
               j_role = None, j_is_active = None, j_cpu_limit = None, j_mem_limit = None,
               j_disk_quota = None, j_gpu_access = None\<rparr>)
     = ((500, Unhandled UnicodeEncodeError), sample_db)"
  by code_simp

subsection \<open>Delete\<close>

text \<open>
  Claim C6. A delete request of an authenticated caller for the caller's own account, or
  for the account named \<open>admin\<close> (the main admin account the handler protects), is
  answered 403 and leaves the whole store as it was: no account, quota, session or log
  row is removed, and no external command is run.
\<close>

theorem delete_user_protected:
  assumes "caller env st req = Some user"
    and "a_user_id user = user_id
         \<or> (\<exists>row. user_by_id st user_id = Some row \<and> u_username row = ''admin'')"
  shows "fst (fst (delete_user env st req user_id)) = 403
       \<and> error_of (fst (delete_user env st req user_id)) = Some AuthorizationError
       \<and> snd (delete_user env st req user_id) = st"
proof -
  have ex: "user_by_id st user_id \<noteq> None"
    using assms(2) caller_account[OF assms(1)] by auto
  then obtain row where row: "user_by_id st user_id = Some row" by auto
  show ?thesis
    using assms(2) row unfolding delete_user_def require_auth_caller[OF assms(1)]
    by (auto simp: require_admin_def error_of_def)
qed

text \<open>
  The sample store: the admin \<open>dave\<close> asks to delete the account \<open>admin\<close>, and his own.
\<close>

theorem delete_user_protected_witness:
  "caller (sample_env (Completed 0 [] []) 0) sample_db (bearer ''dd'')
     = Some \<lparr>a_user_id = 3, a_username = ''dave'', a_role = ''admin''\<rparr>
   \<and> user_by_id sample_db 1 \<noteq> None
   \<and> delete_user (sample_env (Completed 0 [] []) 0) sample_db (bearer ''dd'') 1
       = ((403, Error ''Cannot delete the main admin user''), sample_db)
   \<and> delete_user (sample_env (Completed 0 [] []) 0) sample_db (bearer ''dd'') 3
       = ((403, Error ''Cannot delete your own account''), sample_db)"
proof -
  have c: "caller (sample_env (Completed 0 [] []) 0) sample_db (bearer ''dd'')
     = Some \<lparr>a_user_id = 3, a_username = ''dave'', a_role = ''admin''\<rparr>"
    by code_simp
  have u: "user_by_id sample_db 1 =
     Some \<lparr>u_id = 1, u_username = ''admin'', u_password_hash = ''#root'', u_email = ''a@x'',
          u_role = ''admin'', u_is_active = True, u_last_login = None\<rparr>"
    by code_simp
  have t1: "snd (delete_user (sample_env (Completed 0 [] []) 0) sample_db (bearer ''dd'') 1)
      = sample_db"
    using delete_user_protected[OF c, of 1] u by simp
  have t2: "snd (delete_user (sample_env (Completed 0 [] []) 0) sample_db (bearer ''dd'') 3)
      = sample_db"
    using delete_user_protected[OF c, of 3] by simp
  have b1: "fst (delete_user (sample_env (Completed 0 [] []) 0) sample_db (bearer ''dd'') 1)
      = (403, Error ''Cannot delete the main admin user'')"
    by code_simp
  have b2: "fst (delete_user (sample_env (Completed 0 [] []) 0) sample_db (bearer ''dd'') 3)
      = (403, Error ''Cannot delete your own account'')"
    by code_simp
  from c u t1 t2 b1 b2 show ?thesis by (simp add: prod_eq_iff)
qed

text \<open>
  Claim C3 fails on the code. In the sample store the admin deletes \<open>bob\<close> and
  \<open>userdel\<close> ends with status 1: the handler answers 500 after it has removed the
  account, quota, session and log rows of \<open>bob\<close>, and it puts none of them back.
\<close>

theorem delete_user_external_failure:
  "user_by_id sample_db 2 \<noteq> None
   \<and> resource_by_user sample_db 2 \<noteq> None
   \<and> fst (delete_user (sample_env (Completed 1 [] ''userdel: user bob is in use'') 0)
            sample_db (bearer ''aa'') 2)
       = (500, ErrorDetails ''Failed to delete system user'' ''userdel: user bob is in use'')
   \<and> snd (delete_user (sample_env (Completed 1 [] ''userdel: user bob is in use'') 0)
            sample_db (bearer ''aa'') 2)
       = sample_db
          \<lparr>users := filter (\<lambda>u. u_id u \<noteq> 2) (users sample_db),
           resource_allocations :=
             filter (\<lambda>r. r_user_id r \<noteq> 2) (resource_allocations sample_db),
           sessions := filter (\<lambda>s. s_user_id s \<noteq> 2) (sessions sample_db),
           activity_log := [],
           calls := [[''userdel'', ''-rf'', ''bob'']]\<rparr>
   \<and> user_by_id (snd (delete_user (sample_env (Completed 1 [] ''userdel: user bob is in use'') 0)
            sample_db (bearer ''aa'') 2)) 2 = None
   \<and> resource_by_user
        (snd (delete_user (sample_env (Completed 1 [] ''userdel: user bob is in use'') 0)
            sample_db (bearer ''aa'') 2)) 2 = None"
  by code_simp

subsection \<open>Usage\<close>

lemma gpu_usage_of_failed:
  assumes "failed (e_run env nvidia_cmd)"
  shows "fst (gpu_usage_of env st username) = []"
  using assms
  by (cases "e_run env nvidia_cmd")
     (simp_all add: gpu_usage_of_def run_cmd_def failed_def)

text \<open>
  Claim C9. The caller may see the account, and \<open>nvidia-smi\<close> fails: it cannot be
  started or raises otherwise, or it ends with a nonzero status. When the three
  measurements of cpu, memory and disk give values, the request is answered 200 with
  those values and an empty accelerator list.
\<close>

theorem usage_without_accelerator:
  assumes "caller env st req = Some user"
    and "a_role user = ''admin'' \<or> a_user_id user = user_id"
    and "user_by_id st user_id = Some row"
    and "failed (e_run env nvidia_cmd)"
    and "cpu_usage_of env (e_run env (ps_cpu_cmd (u_username row))) = Inr cpu"
    and "mem_usage_of env (e_run env (ps_rss_cmd (u_username row))) = Inr mem"
    and "disk_usage_of env (e_run env (du_cmd (u_username row))) = Inr disk"
  shows "fst (get_resource_usage env st req user_id) = (200, Usage cpu mem disk [])"
proof -
  have g: "\<And>s. fst (gpu_usage_of env s (u_username row)) = []"
    using assms(4) by (rule gpu_usage_of_failed)
  have "fst (usage_body env st (u_username row)) = Inr (Usage cpu mem disk [])"
    using assms(5,6,7) g
    by (simp add: usage_body_def run_cmd_def case_prod_beta)
  then show ?thesis
    using assms(2,3) unfolding get_resource_usage_def require_auth_caller[OF assms(1)]
    by (simp add: case_prod_beta split: sum.splits)
qed

text \<open>
  The sample store on a host without \<open>nvidia-smi\<close>, where each other command prints
  \<open>7\<close>: \<open>bob\<close> asks for his own usage.
\<close>

theorem usage_without_accelerator_witness:
  "caller (no_accelerator_env [CHR ''7'', CHR 0x0A] 0) sample_db (bearer ''bb'')
     = Some \<lparr>a_user_id = 2, a_username = ''bob'', a_role = ''user''\<rparr>
   \<and> failed (e_run (no_accelerator_env [CHR ''7'', CHR 0x0A] 0) nvidia_cmd)
   \<and> fst (get_resource_usage (no_accelerator_env [CHR ''7'', CHR 0x0A] 0) sample_db
            (bearer ''bb'') 2)
       = (200, Usage (PFloat 7) (PFloat 0) 7 [])"
proof -
  let ?env = "no_accelerator_env [CHR ''7'', CHR 0x0A] 0"
  let ?row = "\<lparr>u_id = 2, u_username = ''bob'', u_password_hash = ''#pw'', u_email = ''b@x'',
          u_role = ''user'', u_is_active = True, u_last_login = None\<rparr>"
  have c: "caller ?env sample_db (bearer ''bb'')
     = Some \<lparr>a_user_id = 2, a_username = ''bob'', a_role = ''user''\<rparr>"
    by code_simp
  have o: "a_role \<lparr>a_user_id = 2, a_username = ''bob'', a_role = ''user''\<rparr> = ''admin''
      \<or> a_user_id \<lparr>a_user_id = 2, a_username = ''bob'', a_role = ''user''\<rparr> = 2"
    by simp
  have u: "user_by_id sample_db 2 = Some ?row" by code_simp
  have f: "failed (e_run ?env nvidia_cmd)" by code_simp
  have m1: "cpu_usage_of ?env (e_run ?env (ps_cpu_cmd (u_username ?row))) = Inr (PFloat 7)"
    by code_simp
  have m2: "mem_usage_of ?env (e_run ?env (ps_rss_cmd (u_username ?row))) = Inr (PFloat 0)"
    by code_simp
  have m3: "disk_usage_of ?env (e_run ?env (du_cmd (u_username ?row))) = Inr 7"
    by code_simp
  from c f usage_without_accelerator[OF c o u f m1 m2 m3] show ?thesis by simp
qed

subsection \<open>The handlers keep the store well formed\<close>

text \<open>
  Every handler takes a store in which the sessions name existing accounts and the ids
  are below the next id to a store of the same kind, whatever the request and whatever
  the external commands do.
\<close>

lemma store_ok_iff:
  "store_ok st \<longleftrightarrow>
     (\<forall>s\<in>set (sessions st). \<exists>u\<in>set (users st). u_id u = s_user_id s)
   \<and> (\<forall>u\<in>set (users st). u_id u < next_user_id st)
   \<and> (\<forall>r\<in>set (resource_allocations st). r_user_id r < next_user_id st)"
  by (auto simp: store_ok_def sessions_reference_accounts_def ids_below_next_def
      list_all_iff list_ex_iff)

lemma store_ok_calls: "store_ok (st\<lparr>calls := c\<rparr>) = store_ok st"
  by (simp add: store_ok_iff)

lemma store_ok_run_cmd: "store_ok (snd (run_cmd env st cmd)) = store_ok st"
  by (simp add: run_cmd_def store_ok_calls)

lemma require_auth_store_ok:
  assumes "store_ok st" and "\<And>user. caller env st req = Some user \<Longrightarrow> store_ok (snd (f user))"
  shows "store_ok (snd (require_auth env st req f))"
proof (cases "caller env st req")
  case None
  then show ?thesis using assms(1) by (simp add: require_auth_none)
next
  case (Some user)
  then show ?thesis using assms(2) by (simp add: require_auth_caller)
qed

lemma find_Some_set: "find P xs = Some x \<Longrightarrow> x \<in> set xs \<and> P x"
  by (auto simp: find_Some_iff)

lemma store_ok_ids:
  "store_ok st \<longleftrightarrow>
     s_user_id ` set (sessions st) \<subseteq> u_id ` set (users st)
   \<and> (\<forall>u\<in>set (users st). u_id u < next_user_id st)
   \<and> (\<forall>r\<in>set (resource_allocations st). r_user_id r < next_user_id st)"
proof -
  have "(\<forall>s\<in>set (sessions st). \<exists>u\<in>set (users st). u_id u = s_user_id s)
      \<longleftrightarrow> s_user_id ` set (sessions st) \<subseteq> u_id ` set (users st)"
    by (simp add: image_subset_iff image_iff eq_commute)
  then show ?thesis by (simp add: store_ok_iff)
qed

lemma store_ok_same_ids:
  assumes "store_ok st"
    and "map u_id (users st') = map u_id (users st)"
    and "s_user_id ` set (sessions st') \<subseteq> s_user_id ` set (sessions st) \<union> u_id ` set (users st)"
    and "map r_user_id (resource_allocations st') = map r_user_id (resource_allocations st)"
    and "next_user_id st' = next_user_id st"
  shows "store_ok st'"
proof -
  have u: "u_id ` set (users st') = u_id ` set (users st)"
    using arg_cong[OF assms(2), of set] by simp
  have r: "r_user_id ` set (resource_allocations st') = r_user_id ` set (resource_allocations st)"
    using arg_cong[OF assms(4), of set] by simp
  have s0: "s_user_id ` set (sessions st) \<subseteq> u_id ` set (users st)"
    and u0: "\<forall>u\<in>set (users st). u_id u < next_user_id st"
    and r0: "\<forall>r\<in>set (resource_allocations st). r_user_id r < next_user_id st"
    using assms(1) unfolding store_ok_ids by simp_all
  have a: "s_user_id ` set (sessions st') \<subseteq> u_id ` set (users st')"
    using assms(3) s0 unfolding u by blast
  have b: "\<forall>x\<in>set (users st'). u_id x < next_user_id st'"
  proof
    fix x assume "x \<in> set (users st')"
    then have "u_id x \<in> u_id ` set (users st)" using u by blast
    then show "u_id x < next_user_id st'" using u0 assms(5) by auto
  qed
  have c: "\<forall>x\<in>set (resource_allocations st'). r_user_id x < next_user_id st'"
  proof
    fix x assume "x \<in> set (resource_allocations st')"
    then have "r_user_id x \<in> r_user_id ` set (resource_allocations st)" using r by blast
    then show "r_user_id x < next_user_id st'" using r0 assms(5) by auto
  qed
  from a b c show ?thesis unfolding store_ok_ids by simp
qed

lemma authenticate_user_store_ok:
  assumes "store_ok st"
  shows "store_ok (snd (authenticate_user env st req n p))"
proof (cases "user_by_username st n")
  case None
  then show ?thesis using assms by (simp add: authenticate_user_def)
next
  case (Some user)
  then have u: "u_id user \<in> u_id ` set (users st)"
    by (auto simp: user_by_username_def dest: find_Some_set)
  have m: "map u_id (map (\<lambda>u. if u_id u = i then u\<lparr>u_last_login := t\<rparr> else u) xs)
      = map u_id xs" for i t xs
    by (induction xs) auto
  show ?thesis
  proof (cases "verify_password env p (u_password_hash user) = Inr True")
    case False
    then show ?thesis
      using assms Some
      by (cases "verify_password env p (u_password_hash user)")
         (auto simp: authenticate_user_def)
  next
    case True
    show ?thesis
    proof (rule store_ok_same_ids[OF assms])
      show "map u_id (users (snd (authenticate_user env st req n p))) = map u_id (users st)"
        using Some True by (simp add: authenticate_user_def Let_def m del: map_map)
      show "s_user_id ` set (sessions (snd (authenticate_user env st req n p)))
          \<subseteq> s_user_id ` set (sessions st) \<union> u_id ` set (users st)"
        using Some True u by (auto simp: authenticate_user_def Let_def)
      show "map r_user_id (resource_allocations (snd (authenticate_user env st req n p)))
          = map r_user_id (resource_allocations st)"
        using Some True by (simp add: authenticate_user_def Let_def)
      show "next_user_id (snd (authenticate_user env st req n p)) = next_user_id st"
        using Some True by (simp add: authenticate_user_def Let_def)
    qed
  qed
qed

lemma login_store_ok:
  assumes "store_ok st"
  shows "store_ok (snd (login env st req data))"
proof -
  have a: "store_ok (snd (authenticate_user env st req n p))" for n p
    by (rule authenticate_user_store_ok[OF assms])
  show ?thesis
  proof (cases data)
    case None
    then show ?thesis using assms by (simp add: login_def)
  next
    case (Some d)
    show ?thesis
    proof (cases "d_username d")
      case None
      then show ?thesis using assms Some by (simp add: login_def)
    next
      case n: (Some n)
      show ?thesis
      proof (cases "d_password d")
        case None
        then show ?thesis using assms Some n by (simp add: login_def)
      next
        case p: (Some p)
        show ?thesis
          using assms Some n p a[of n p]
          by (cases "authenticate_user env st req n p")
             (auto simp: login_def split: option.splits sum.splits)
      qed
    qed
  qed
qed

lemma logout_store_ok:
  assumes "store_ok st"
  shows "store_ok (snd (logout env st req))"
  unfolding logout_def
  using assms
  by (intro require_auth_store_ok)
     (auto simp: store_ok_iff split: option.splits sum.splits)

lemma update_resources_store_ok:
  assumes "store_ok st"
  shows "store_ok (snd (update_resources env st uid eu d))"
proof -
  have m: "store_ok (st\<lparr>resource_allocations :=
      map (\<lambda>r. if r_user_id r = uid then set_resource_fields d r else r)
        (resource_allocations st)\<rparr>)"
    using assms
    by (auto simp: store_ok_iff set_resource_fields_def Let_def split: option.splits)
  have a: "store_ok (snd (apply_resource_limits env s n c mm dd g)) = store_ok s" for s n c mm dd g
    by (simp add: store_ok_iff apply_resource_limits_frame)
  show ?thesis
    using assms m
    by (simp add: update_resources_def Let_def a split: option.splits sum.splits)
qed

lemma update_users_table_store_ok:
  assumes "store_ok st" and "update_users_table env st uid d = Inr st1"
  shows "store_ok st1"
proof -
  obtain ph where ph: "password_hash_of env d = Inr ph"
    and st1: "st1 = (if j_email d \<noteq> None \<or> j_is_active d \<noteq> None \<or> j_password d \<noteq> None
               then st\<lparr>users := map (\<lambda>u. if u_id u = uid
                                       then set_user_fields d ph u else u)
                                     (users st)\<rparr>
               else st)"
    using assms(2) by (auto simp: update_users_table_def split: sum.splits)
  have m: "map u_id (map (\<lambda>u. if u_id u = uid then set_user_fields d ph u else u) xs)
      = map u_id xs" for xs
    by (induction xs) (auto simp: set_user_fields_keeps)
  show ?thesis
  proof (rule store_ok_same_ids[OF assms(1)])
    show "map u_id (users st1) = map u_id (users st)"
      by (simp add: st1 m del: map_map)
  qed (simp_all add: st1)
qed

lemma update_user_store_ok:
  assumes "store_ok st"
  shows "store_ok (snd (update_user env st req user_id data))"
  unfolding update_user_def
  using assms
  by (intro require_auth_store_ok)
     (auto simp: Let_def update_resources_store_ok update_users_table_store_ok
        split: option.splits sum.splits)

lemma delete_user_store_ok:
  assumes "store_ok st"
  shows "store_ok (snd (delete_user env st req user_id))"
  unfolding delete_user_def
proof (intro require_auth_store_ok assms)
  fix user
  have d: "store_ok (st\<lparr>resource_allocations :=
              filter (\<lambda>r. r_user_id r \<noteq> user_id) (resource_allocations st),
            sessions := filter (\<lambda>s. s_user_id s \<noteq> user_id) (sessions st),
            activity_log := filter (\<lambda>l. l_user_id l \<noteq> user_id) (activity_log st),
            users := filter (\<lambda>u. u_id u \<noteq> user_id) (users st), calls := c\<rparr>)" for c
    using assms by (fastforce simp: store_ok_iff)
  show "store_ok (snd (require_admin st user
       (case user_by_id st user_id of
          None \<Rightarrow> ((404, Error ''User not found''), st)
        | Some existing_user \<Rightarrow>
            if u_username existing_user = ''admin''
            then ((403, Error ''Cannot delete the main admin user''), st)
            else if a_user_id user = user_id
            then ((403, Error ''Cannot delete your own account''), st)
            else
              (let username = u_username existing_user;
                   st1 = st\<lparr>resource_allocations :=
                             filter (\<lambda>r. r_user_id r \<noteq> user_id) (resource_allocations st)\<rparr>;
                   st2 = st1\<lparr>sessions := filter (\<lambda>s. s_user_id s \<noteq> user_id) (sessions st1)\<rparr>;
                   st3 = st2\<lparr>activity_log :=
                              filter (\<lambda>l. l_user_id l \<noteq> user_id) (activity_log st2)\<rparr>;
                   st4 = st3\<lparr>users := filter (\<lambda>u. u_id u \<noteq> user_id) (users st3)\<rparr>
               in case run_cmd env st4 [''userdel'', ''-rf'', username] of
                    (Raised m, st') \<Rightarrow>
                      ((500, ErrorExc ''Failed to delete system user'' (RunError m)), st')
                  | (Completed returncode out err, st') \<Rightarrow>
                      if returncode \<noteq> 0
                      then ((500, ErrorDetails ''Failed to delete system user'' err), st')
                      else ((200, Message ''User deleted successfully''), st')))))"
    using assms d
    by (simp add: require_admin_def Let_def run_cmd_def
        split: option.splits proc_result.splits)
qed

lemma get_resource_usage_store_ok:
  assumes "store_ok st"
  shows "store_ok (snd (get_resource_usage env st req user_id))"
proof -
  have g: "store_ok (snd (gpu_usage_of env s n)) = store_ok s" for s n
    by (simp add: gpu_usage_of_def run_cmd_def store_ok_calls
        split: proc_result.splits)
  have b: "store_ok (snd (usage_body env st n))" for n
    using assms
    by (simp add: usage_body_def run_cmd_def store_ok_calls g case_prod_beta
        split: sum.splits)
  show ?thesis
    unfolding get_resource_usage_def
    using assms b
    by (intro require_auth_store_ok)
       (auto simp: case_prod_beta split: option.splits sum.splits)
qed

lemma create_system_user_shape:
  "\<exists>c. snd (create_system_user env st uid n p e r cl ml dq g) = st\<lparr>calls := c\<rparr>
     \<or> snd (create_system_user env st uid n p e r cl ml dq g) = rollback (st\<lparr>calls := c\<rparr>) uid"
proof -
  have s: "st = st\<lparr>calls := calls st\<rparr>" by simp
  have a: "\<exists>c. st = st\<lparr>calls := c\<rparr> \<or> P c" for P
    using s by blast
  have b: "\<exists>c. Q c \<or> rollback st uid = rollback (st\<lparr>calls := c\<rparr>) uid" for Q
    using s by (metis)
  show ?thesis
    by (auto simp: create_system_user_def Let_def run_cmd_def b
        split: sum.splits proc_result.splits)
qed

lemma create_user_cases:
  "snd (create_user env st req data) = st
   \<or> (\<exists>n h e r a q c.
        user_by_username st n = None \<and> r_user_id q = next_user_id st \<and>
        (snd (create_user env st req data)
           = (insert_user st n h e r a)
               \<lparr>resource_allocations := resource_allocations st @ [q], calls := c\<rparr>
         \<or> snd (create_user env st req data)
           = rollback ((insert_user st n h e r a)
               \<lparr>resource_allocations := resource_allocations st @ [q], calls := c\<rparr>)
               (next_user_id st)))"
proof (cases "caller env st req")
  case None
  then show ?thesis by (simp add: create_user_def require_auth_none)
next
  case (Some user)
  note ra = require_auth_caller[OF Some]
  show ?thesis
  proof (cases "a_role user = ''admin'' \<and> data \<noteq> None \<and> j_username (the data) \<noteq> None
      \<and> j_password (the data) \<noteq> None
      \<and> user_by_username st (the (j_username (the data))) = None
      \<and> (\<exists>h. generate_password_hash env (the (j_password (the data))) = Inr h)")
    case False
    then have "snd (create_user env st req data) = st"
      unfolding create_user_def ra
      by (auto simp: require_admin_def Let_def split: option.splits sum.splits)
    then show ?thesis by simp
  next
    case True
    then obtain d n p h where d: "data = Some d" and n: "j_username d = Some n"
      and p: "j_password d = Some p" and fresh: "user_by_username st n = None"
      and adm: "a_role user = ''admin''" and h: "generate_password_hash env p = Inr h"
      by auto
    define e where "e = get_or (j_email d) []"
    define r where "r = get_or (j_role d) ''user''"
    define a where "a = get_or (j_is_active d) True"
    define row where "row = \<lparr>u_id = next_user_id st, u_username = n,
             u_password_hash = h, u_email = e, u_role = r, u_is_active = a,
             u_last_login = None\<rparr>"
    define st1 where "st1 = insert_user st n h e r a"
    define q where "q = \<lparr>r_user_id = next_user_id st,
      r_cpu_limit = get_or (j_cpu_limit d) (e_float_one env),
      r_mem_limit = get_or (j_mem_limit d) ''2G'',
      r_disk_quota = get_or (j_disk_quota d) ''5G'',
      r_gpu_access = get_or (j_gpu_access d) False\<rparr>"
    define st2 where "st2 = st1\<lparr>resource_allocations := resource_allocations st1 @ [q]\<rparr>"
    define res where "res = create_system_user env st2 (next_user_id st) n (text_of p) e
      r (r_cpu_limit q) (r_mem_limit q) (r_disk_quota q) (r_gpu_access q)"
    have u1: "users st1 = users st @ [row]"
      by (simp add: st1_def insert_user_def row_def)
    have look: "user_by_username st1 n = Some row"
      using fresh unfolding user_by_username_def u1
      by (intro find_append_new) (auto simp: row_def)
    have eq: "create_user env st req data = res"
      unfolding create_user_def ra d
      using adm n p fresh look h
      by (simp add: require_admin_def Let_def res_def st2_def st1_def q_def e_def r_def
          a_def row_def create_rows_def)
    have st2: "st2\<lparr>calls := c\<rparr> = (insert_user st n h e r a)
               \<lparr>resource_allocations := resource_allocations st @ [q], calls := c\<rparr>" for c
      by (simp add: st2_def st1_def insert_user_def)
    have rq: "r_user_id q = next_user_id st" by (simp add: q_def)
    from create_system_user_shape[of env st2 "next_user_id st" n "text_of p" e r "r_cpu_limit q"
        "r_mem_limit q" "r_disk_quota q" "r_gpu_access q", folded res_def]
    obtain c where "snd res = st2\<lparr>calls := c\<rparr>
        \<or> snd res = rollback (st2\<lparr>calls := c\<rparr>) (next_user_id st)"
      by blast
    then show ?thesis
      unfolding eq st2 using fresh rq by blast
  qed
qed

lemma create_user_store_ok:
  assumes "store_ok st"
  shows "store_ok (snd (create_user env st req data))"
proof -
  have nu: "\<forall>u\<in>set (users st). u_id u \<noteq> next_user_id st"
    and nr: "\<forall>r\<in>set (resource_allocations st). r_user_id r \<noteq> next_user_id st"
    using assms by (auto simp: store_ok_iff)
  have fu: "filter (\<lambda>u. u_id u \<noteq> next_user_id st) (users st) = users st"
    using nu by (simp add: filter_id_conv)
  have fr: "filter (\<lambda>r. r_user_id r \<noteq> next_user_id st) (resource_allocations st)
      = resource_allocations st"
    using nr by (simp add: filter_id_conv)
  have ok1: "store_ok ((insert_user st n h e r a)
               \<lparr>resource_allocations := resource_allocations st @ [q], calls := c\<rparr>)"
    if "r_user_id q = next_user_id st" for n h e r a q c
    using assms that by (fastforce simp: store_ok_iff insert_user_def)
  have ok2: "store_ok (rollback ((insert_user st n h e r a)
               \<lparr>resource_allocations := resource_allocations st @ [q], calls := c\<rparr>)
               (next_user_id st))"
    if "r_user_id q = next_user_id st" for n h e r a q c
    using assms that
    by (auto simp: store_ok_iff rollback_def Let_def insert_user_def fu fr)
  from create_user_cases[of env st req data] assms ok1 ok2 show ?thesis
    by metis
qed

lemma sample_db_store_ok: "store_ok sample_db"
  by (simp add: store_ok_def sessions_reference_accounts_def ids_below_next_def sample_db_def)

end
